theory Spec2Isabelle
  imports Main "HOL-Library.Word"
begin

section \<open>Errors\<close>

text \<open>
  Go \<open>error\<close> values.  Errors made by the repository's own code have a constructor
  each (the \<open>fmt.Errorf\<close> wrappers keep the wrapped error); errors that come out
  of the operating system, the network or a native library are \<open>External\<close>.
\<close>

datatype error =
    External string
  | Canceled
  | DeadlineExceeded
  | ModelNotFound string
  | ModelNotDownloaded string
  | UnknownEngine string
  | CreateRecognizerFailed error
  | VoskModelMissing "string list"
  | VoskModelLoadFailed error
  | DownloadFailed error
  | HTTPStatus string
  | UnzipFailed error
  | ModelNotLoaded
  | TokenizationFailed
  | EmptyPrompt
  | DecodePromptFailed
  | LlmGenerate error

section \<open>Files and directories\<close>

text \<open>
  A path is the list of its components below the root, so \<open>filepath.Join\<close> is
  \<open>@\<close> and \<open>filepath.Dir\<close> is \<open>butlast\<close>.  The file system is a finite table
  from paths to nodes; the root \<open>[]\<close> is always a directory.  What \<open>Stat\<close> reports
  as the size of a directory depends on the system and is a field of the file system.
\<close>

type_synonym path = "string list"

type_synonym byte = "8 word"

datatype node = File "byte list" | Dir

record filesystem =
  nodes :: "(path \<times> node) list"
  dirSize :: int

record FileInfo =
  IsDir :: bool
  Size :: int

definition lookup :: "filesystem \<Rightarrow> path \<Rightarrow> node option" where
  "lookup fs p = (if p = [] then Some Dir else map_of (nodes fs) p)"

fun put :: "path \<Rightarrow> node \<Rightarrow> (path \<times> node) list \<Rightarrow> (path \<times> node) list" where
  "put p n [] = [(p, n)]"
| "put p n (e # es) = (if fst e = p then (p, n) # es else e # put p n es)"

definition store :: "filesystem \<Rightarrow> path \<Rightarrow> node \<Rightarrow> filesystem" where
  "store fs p n = fs\<lparr>nodes := put p n (nodes fs)\<rparr>"

definition erase :: "filesystem \<Rightarrow> path \<Rightarrow> filesystem" where
  "erase fs p = fs\<lparr>nodes := filter (\<lambda>e. fst e \<noteq> p) (nodes fs)\<rparr>"

definition hasChildren :: "filesystem \<Rightarrow> path \<Rightarrow> bool" where
  "hasChildren fs p = list_ex (\<lambda>e. fst e \<noteq> [] \<and> butlast (fst e) = p) (nodes fs)"

definition os_Stat :: "filesystem \<Rightarrow> path \<Rightarrow> error + FileInfo" where
  "os_Stat fs p =
     (case lookup fs p of
        None \<Rightarrow> Inl (External ''no such file or directory'')
      | Some (File bs) \<Rightarrow> Inr \<lparr>IsDir = False, Size = int (length bs)\<rparr>
      | Some Dir \<Rightarrow> Inr \<lparr>IsDir = True, Size = dirSize fs\<rparr>)"

text \<open>
  \<open>os.MkdirAll\<close>: nothing to do for a directory, an error for a file, and otherwise the
  parent is made first and then the directory itself.
\<close>

function os_MkdirAll :: "filesystem \<Rightarrow> path \<Rightarrow> error option \<times> filesystem" where
  "os_MkdirAll fs p =
     (if p = [] then (None, fs)
      else case lookup fs p of
             Some Dir \<Rightarrow> (None, fs)
           | Some (File bs) \<Rightarrow> (Some (External ''not a directory''), fs)
           | None \<Rightarrow>
               (case os_MkdirAll fs (butlast p) of
                  (Some err, fs1) \<Rightarrow> (Some err, fs1)
                | (None, fs1) \<Rightarrow> (None, store fs1 p Dir)))"
  by pat_completeness auto
termination
  by (relation "measure (\<lambda>(fs, p). length p)") auto

text \<open>
  Opening with \<open>O_CREATE|O_TRUNC\<close> (\<open>os.Create\<close>, and \<open>os.OpenFile\<close> in \<open>unzip\<close>):
  the parent must be a directory and the path itself must not be one; the file is
  empty afterwards.
\<close>

definition os_Create :: "filesystem \<Rightarrow> path \<Rightarrow> error + filesystem" where
  "os_Create fs p =
     (if p = [] \<or> lookup fs p = Some Dir then Inl (External ''is a directory'')
      else if lookup fs (butlast p) \<noteq> Some Dir then Inl (External ''no such file or directory'')
      else Inr (store fs p (File [])))"

text \<open>\<open>file.Write\<close> on a file opened by \<open>os_Create\<close>: the bytes go to its end.\<close>

definition file_Write :: "filesystem \<Rightarrow> path \<Rightarrow> byte list \<Rightarrow> filesystem" where
  "file_Write fs p bs =
     (case lookup fs p of
        Some (File old) \<Rightarrow> store fs p (File (old @ bs))
      | _ \<Rightarrow> fs)"

text \<open>\<open>os.Remove\<close> with its error dropped, as the deferred calls do: a file or an empty directory goes.\<close>

definition os_Remove :: "filesystem \<Rightarrow> path \<Rightarrow> filesystem" where
  "os_Remove fs p =
     (case lookup fs p of
        None \<Rightarrow> fs
      | Some (File bs) \<Rightarrow> erase fs p
      | Some Dir \<Rightarrow> (if p = [] \<or> hasChildren fs p then fs else erase fs p))"

text \<open>
  \<open>os.Rename\<close> of a file: the source must exist, the target must not be a directory and
  its parent must be one; an old file at the target is replaced.
\<close>

definition os_Rename :: "filesystem \<Rightarrow> path \<Rightarrow> path \<Rightarrow> error option \<times> filesystem" where
  "os_Rename fs src dst =
     (case lookup fs src of
        Some (File bs) \<Rightarrow>
          (if dst = [] \<or> lookup fs dst = Some Dir then (Some (External ''file exists''), fs)
           else if lookup fs (butlast dst) \<noteq> Some Dir
             then (Some (External ''no such file or directory''), fs)
           else (None, store (erase fs src) dst (File bs)))
      | _ \<Rightarrow> (Some (External ''no such file or directory''), fs))"

text \<open>\<open>os.RemoveAll\<close>: the node and everything below it.\<close>

definition os_RemoveAll :: "filesystem \<Rightarrow> path \<Rightarrow> filesystem" where
  "os_RemoveAll fs p = fs\<lparr>nodes := filter (\<lambda>e. take (length p) (fst e) \<noteq> p) (nodes fs)\<rparr>"

section \<open>Package models: the registry\<close>

type_synonym Engine = string

definition EngineWhisper :: Engine where
  "EngineWhisper = ''whisper''"

definition EngineVosk :: Engine where
  "EngineVosk = ''vosk''"

definition EngineLLM :: Engine where
  "EngineLLM = ''llm''"

record ModelInfo =
  ID :: string
  Engine :: Engine
  Name :: string
  Filename :: string
  URL :: string
  Size :: int
  IsZip :: bool

definition hf_whisper :: string where
  "hf_whisper = ''https://huggingface.co/ggerganov/whisper.cpp/resolve/main/''"

definition Registry :: "ModelInfo list" where
  "Registry =
    [\<lparr>ID = ''whisper-tiny-q5'', Engine = EngineWhisper, Name = ''Tiny Q5'',
      Filename = ''ggml-tiny-q5_1.bin'', URL = hf_whisper @ ''ggml-tiny-q5_1.bin'',
      Size = 32 * 1024 * 1024, IsZip = False\<rparr>,
     \<lparr>ID = ''whisper-base-q5'', Engine = EngineWhisper, Name = ''Base Q5'',
      Filename = ''ggml-base-q5_1.bin'', URL = hf_whisper @ ''ggml-base-q5_1.bin'',
      Size = 60 * 1024 * 1024, IsZip = False\<rparr>,
     \<lparr>ID = ''whisper-small-q5'', Engine = EngineWhisper, Name = ''Small Q5'',
      Filename = ''ggml-small-q5_1.bin'', URL = hf_whisper @ ''ggml-small-q5_1.bin'',
      Size = 190 * 1024 * 1024, IsZip = False\<rparr>,
     \<lparr>ID = ''whisper-turbo'', Engine = EngineWhisper, Name = ''Large v3 Turbo'',
      Filename = ''ggml-large-v3-turbo-q5_0.bin'',
      URL = hf_whisper @ ''ggml-large-v3-turbo-q5_0.bin'',
      Size = 574 * 1024 * 1024, IsZip = False\<rparr>,
     \<lparr>ID = ''whisper-tiny'', Engine = EngineWhisper, Name = ''Tiny'',
      Filename = ''ggml-tiny.bin'', URL = hf_whisper @ ''ggml-tiny.bin'',
      Size = 75 * 1024 * 1024, IsZip = False\<rparr>,
     \<lparr>ID = ''whisper-base'', Engine = EngineWhisper, Name = ''Base'',
      Filename = ''ggml-base.bin'', URL = hf_whisper @ ''ggml-base.bin'',
      Size = 142 * 1024 * 1024, IsZip = False\<rparr>,
     \<lparr>ID = ''whisper-small'', Engine = EngineWhisper, Name = ''Small'',
      Filename = ''ggml-small.bin'', URL = hf_whisper @ ''ggml-small.bin'',
      Size = 466 * 1024 * 1024, IsZip = False\<rparr>,
     \<lparr>ID = ''vosk-ru-small'', Engine = EngineVosk, Name = ''Russian Small'',
      Filename = ''vosk-model-small-ru-0.22'',
      URL = ''https://alphacephei.com/vosk/models/vosk-model-small-ru-0.22.zip'',
      Size = 45 * 1024 * 1024, IsZip = True\<rparr>,
     \<lparr>ID = ''vosk-ru'', Engine = EngineVosk, Name = ''Russian Large'',
      Filename = ''vosk-model-ru-0.42'',
      URL = ''https://alphacephei.com/vosk/models/vosk-model-ru-0.42.zip'',
      Size = 1800 * 1024 * 1024, IsZip = True\<rparr>,
     \<lparr>ID = ''llm-qwen2.5-0.5b'', Engine = EngineLLM, Name = ''Qwen2.5 0.5B'',
      Filename = ''qwen2.5-0.5b-instruct-q4_k_m.gguf'',
      URL = ''https://huggingface.co/Qwen/Qwen2.5-0.5B-Instruct-GGUF/resolve/main/qwen2.5-0.5b-instruct-q4_k_m.gguf'',
      Size = 386 * 1024 * 1024, IsZip = False\<rparr>,
     \<lparr>ID = ''llm-qwen2.5-1.5b'', Engine = EngineLLM, Name = ''Qwen2.5 1.5B'',
      Filename = ''qwen2.5-1.5b-instruct-q4_k_m.gguf'',
      URL = ''https://huggingface.co/Qwen/Qwen2.5-1.5B-Instruct-GGUF/resolve/main/qwen2.5-1.5b-instruct-q4_k_m.gguf'',
      Size = 987 * 1024 * 1024, IsZip = False\<rparr>,
     \<lparr>ID = ''llm-qwen2.5-3b'', Engine = EngineLLM, Name = ''Qwen2.5 3B'',
      Filename = ''qwen2.5-3b-instruct-q4_k_m.gguf'',
      URL = ''https://huggingface.co/Qwen/Qwen2.5-3B-Instruct-GGUF/resolve/main/qwen2.5-3b-instruct-q4_k_m.gguf'',
      Size = 1900 * 1024 * 1024, IsZip = False\<rparr>]"

text \<open>\<open>GetModel\<close>: the first entry of the registry with the id, or \<open>None\<close> for \<open>ok = false\<close>.\<close>

definition GetModel :: "string \<Rightarrow> ModelInfo option" where
  "GetModel id' = find (\<lambda>m. ID m = id') Registry"

section \<open>Package models: the manager\<close>

record Progress =
  ModelID :: string
  Downloaded :: int
  Total :: int
  Done :: bool
  Error :: "error option"

record Manager =
  modelsDir :: path

text \<open>\<open>filepath.Join\<close> drops an empty element.\<close>

definition elem :: "string \<Rightarrow> path" where
  "elem s = (if s = [] then [] else [s])"

definition GetModelPath :: "Manager \<Rightarrow> ModelInfo \<Rightarrow> path" where
  "GetModelPath m info =
     (if Engine info = EngineWhisper then modelsDir m @ [''whisper''] @ elem (Filename info)
      else if Engine info = EngineVosk then modelsDir m @ [''vosk''] @ elem (Filename info)
      else if Engine info = EngineLLM then modelsDir m @ [''llm''] @ elem (Filename info)
      else modelsDir m @ elem (Filename info))"

definition IsDownloaded :: "Manager \<Rightarrow> filesystem \<Rightarrow> ModelInfo \<Rightarrow> bool" where
  "IsDownloaded m fs info =
     (case os_Stat fs (GetModelPath m info) of
        Inl err \<Rightarrow> False
      | Inr stat \<Rightarrow> (if IsZip info then IsDir stat else FileInfo.Size stat > 0))"

definition ListDownloaded :: "Manager \<Rightarrow> filesystem \<Rightarrow> ModelInfo list" where
  "ListDownloaded m fs = filter (IsDownloaded m fs) Registry"

subsection \<open>What a download meets outside the program\<close>

text \<open>
  One pass of the copy loop of \<open>downloadFile\<close> and \<open>downloadAndUnzip\<close> meets: the
  state of the context at the \<open>select\<close> (\<open>ctx.Err()\<close> when it is done), the bytes
  and the error of \<open>resp.Body.Read\<close> (\<open>EOF\<close> is the error \<open>io.EOF\<close>), the error of
  the write to the temporary file, and whether the progress channel can take a value
  at the non-blocking send.
\<close>

definition EOF :: error where
  "EOF = External ''EOF''"

record pass =
  ctx_err :: "error option"
  chunk :: "byte list"
  read_err :: "error option"
  write_err :: "error option"
  sink_ready :: bool

record Response =
  Status :: string
  StatusCode :: int
  ContentLength :: int

text \<open>
  An entry of a zip archive as \<open>archive/zip\<close> presents it: its name split at the
  slashes, whether it is a directory, the error of \<open>f.Open\<close>, the bytes \<open>io.Copy\<close>
  takes out of it and the error \<open>io.Copy\<close> ends with (a checksum mismatch, say).
\<close>

record zip_File =
  zName :: path
  zIsDir :: bool
  open_err :: "error option"
  content :: "byte list"
  copy_err :: "error option"

record world =
  NewRequest :: "string \<Rightarrow> error option"
  Do :: "string \<Rightarrow> error + Response"
  passes :: "pass list"
  TempDir :: path
  tempName :: "error + string"
  zip_OpenReader :: "byte list \<Rightarrow> error + zip_File list"

text \<open>
  A call either returns or is still waiting in \<open>resp.Body.Read\<close> when the passes the
  world has to offer are used up.
\<close>

datatype 'a call = Returns 'a | Blocked

record download =
  returned :: "error option call"
  files :: filesystem
  sent :: "Progress list"
  fetched :: "string list"

text \<open>\<open>downloaded\<close> is an \<open>int64\<close>: its addition wraps.\<close>

definition wrap64 :: "int \<Rightarrow> int" where
  "wrap64 x = (x + 2 ^ 63) mod 2 ^ 64 - 2 ^ 63"

datatype loop_end = LoopBreak | LoopReturn error | LoopBlocked

text \<open>
  The copy loop, which the two download functions have word for word (up to closing
  the temporary file before a return).  It yields how the loop ended, the file system
  and the progress values that reached the channel.
\<close>

fun copyLoop ::
  "ModelInfo \<Rightarrow> bool \<Rightarrow> int \<Rightarrow> path \<Rightarrow> pass list \<Rightarrow> int \<Rightarrow> filesystem
     \<Rightarrow> loop_end \<times> filesystem \<times> Progress list" where
  "copyLoop info sink tot tmp [] downloaded fs = (LoopBlocked, fs, [])"
| "copyLoop info sink tot tmp (p # ps) downloaded fs =
     (case ctx_err p of
        Some err \<Rightarrow> (LoopReturn err, fs, [])
      | None \<Rightarrow>
          (let n = int (length (chunk p))
           in case (if n > 0 then write_err p else None) of
                Some werr \<Rightarrow> (LoopReturn werr, fs, [])
              | None \<Rightarrow>
                  (let fs1 = (if n > 0 then file_Write fs tmp (chunk p) else fs);
                       downloaded1 = (if n > 0 then wrap64 (downloaded + n) else downloaded);
                       out = (if n > 0 \<and> sink \<and> sink_ready p
                              then [\<lparr>ModelID = ID info, Downloaded = downloaded1, Total = tot,
                                     Done = False, Error = None\<rparr>]
                              else [])
                   in case read_err p of
                        Some err \<Rightarrow>
                          (if err = EOF then (LoopBreak, fs1, out)
                           else (LoopReturn err, fs1, out))
                      | None \<Rightarrow>
                          (case copyLoop info sink tot tmp ps downloaded1 fs1 of
                             (e, fs2, out2) \<Rightarrow> (e, fs2, out @ out2)))))"

definition doneProgress :: "ModelInfo \<Rightarrow> bool \<Rightarrow> int \<Rightarrow> Progress list" where
  "doneProgress info sink tot =
     (if sink then [\<lparr>ModelID = ID info, Downloaded = tot, Total = tot,
                      Done = True, Error = None\<rparr>]
      else [])"

definition totalOf :: "Response \<Rightarrow> ModelInfo \<Rightarrow> int" where
  "totalOf resp info = (if ContentLength resp \<le> 0 then ModelInfo.Size info else ContentLength resp)"

definition tmpPathOf :: "path \<Rightarrow> path" where
  "tmpPathOf destPath = (if destPath = [] then [''.tmp''] else butlast destPath @ [last destPath @ ''.tmp''])"

text \<open>
  \<open>downloadFile\<close> up to its return, the deferred \<open>os.Remove(tmpPath)\<close> left out.
\<close>

definition downloadFile_body ::
  "Manager \<Rightarrow> world \<Rightarrow> filesystem \<Rightarrow> ModelInfo \<Rightarrow> bool \<Rightarrow> download" where
  "downloadFile_body m w fs info sink =
     (let destPath = GetModelPath m info;
          tmpPath = tmpPathOf destPath
      in case NewRequest w (URL info) of
           Some err \<Rightarrow> \<lparr>returned = Returns (Some err), files = fs, sent = [], fetched = []\<rparr>
         | None \<Rightarrow>
             (case Do w (URL info) of
                Inl err \<Rightarrow> \<lparr>returned = Returns (Some (DownloadFailed err)), files = fs,
                             sent = [], fetched = [URL info]\<rparr>
              | Inr resp \<Rightarrow>
                  (if StatusCode resp \<noteq> 200
                   then \<lparr>returned = Returns (Some (HTTPStatus (Status resp))), files = fs,
                         sent = [], fetched = [URL info]\<rparr>
                   else
                     let tot = totalOf resp info
                     in case os_Create fs tmpPath of
                          Inl err \<Rightarrow> \<lparr>returned = Returns (Some err), files = fs,
                                       sent = [], fetched = [URL info]\<rparr>
                        | Inr fs1 \<Rightarrow>
                            (case copyLoop info sink tot tmpPath (passes w) 0 fs1 of
                               (LoopBlocked, fs2, out) \<Rightarrow>
                                 \<lparr>returned = Blocked, files = fs2, sent = out,
                                  fetched = [URL info]\<rparr>
                             | (LoopReturn err, fs2, out) \<Rightarrow>
                                 \<lparr>returned = Returns (Some err), files = fs2, sent = out,
                                  fetched = [URL info]\<rparr>
                             | (LoopBreak, fs2, out) \<Rightarrow>
                                 (case os_Rename fs2 tmpPath destPath of
                                    (Some err, fs3) \<Rightarrow>
                                      \<lparr>returned = Returns (Some err), files = fs3, sent = out,
                                       fetched = [URL info]\<rparr>
                                  | (None, fs3) \<Rightarrow>
                                      \<lparr>returned = Returns None, files = fs3,
                                       sent = out @ doneProgress info sink tot,
                                       fetched = [URL info]\<rparr>)))))"

text \<open>The deferred removal of the temporary file runs whenever the function returns.\<close>

definition deferRemove :: "path \<Rightarrow> download \<Rightarrow> download" where
  "deferRemove tmpPath d =
     (case returned d of
        Blocked \<Rightarrow> d
      | Returns r \<Rightarrow> d\<lparr>files := os_Remove (files d) tmpPath\<rparr>)"

definition downloadFile ::
  "Manager \<Rightarrow> world \<Rightarrow> filesystem \<Rightarrow> ModelInfo \<Rightarrow> bool \<Rightarrow> download" where
  "downloadFile m w fs info sink =
     deferRemove (tmpPathOf (GetModelPath m info)) (downloadFile_body m w fs info sink)"

subsection \<open>Archives\<close>

text \<open>
  The loop of \<open>unzip\<close> over the entries of the archive.  A directory entry is made
  with the error of \<open>os.MkdirAll\<close> dropped; a file entry is written in place under
  \<open>destDir\<close>, and the first error ends the loop with what has been written so far.
\<close>

fun unzip_entries :: "filesystem \<Rightarrow> path \<Rightarrow> zip_File list \<Rightarrow> error option \<times> filesystem" where
  "unzip_entries fs destDir [] = (None, fs)"
| "unzip_entries fs destDir (f # rest) =
     (let fpath = destDir @ zName f
      in if zIsDir f then unzip_entries (snd (os_MkdirAll fs fpath)) destDir rest
         else
           (case os_MkdirAll fs (butlast fpath) of
              (Some err, fs1) \<Rightarrow> (Some err, fs1)
            | (None, fs1) \<Rightarrow>
                (case os_Create fs1 fpath of
                   Inl err \<Rightarrow> (Some err, fs1)
                 | Inr fs2 \<Rightarrow>
                     (case open_err f of
                        Some err \<Rightarrow> (Some err, fs2)
                      | None \<Rightarrow>
                          (let fs3 = file_Write fs2 fpath (content f)
                           in case copy_err f of
                                Some err \<Rightarrow> (Some err, fs3)
                              | None \<Rightarrow> unzip_entries fs3 destDir rest)))))"

definition unzip :: "world \<Rightarrow> filesystem \<Rightarrow> path \<Rightarrow> path \<Rightarrow> error option \<times> filesystem" where
  "unzip w fs src destDir =
     (case lookup fs src of
        Some (File bs) \<Rightarrow>
          (case zip_OpenReader w bs of
             Inl err \<Rightarrow> (Some err, fs)
           | Inr entries \<Rightarrow> unzip_entries fs destDir entries)
      | _ \<Rightarrow> (Some (External ''no such file or directory''), fs))"

text \<open>
  \<open>os.CreateTemp("", "model-*.zip")\<close>: a new, empty file in the temporary directory
  under the name the call settles on.
\<close>

definition os_CreateTemp :: "world \<Rightarrow> filesystem \<Rightarrow> error + (path \<times> filesystem)" where
  "os_CreateTemp w fs =
     (case tempName w of
        Inl err \<Rightarrow> Inl err
      | Inr name \<Rightarrow>
          (let p = TempDir w @ [name]
           in if lookup fs p \<noteq> None then Inl (External ''file exists'')
              else case os_Create fs p of
                     Inl err \<Rightarrow> Inl err
                   | Inr fs1 \<Rightarrow> Inr (p, fs1)))"

text \<open>
  \<open>downloadAndUnzip\<close> after the temporary file \<open>tmpPath\<close> has been made, up to
  its return; the deferred \<open>os.Remove(tmpPath)\<close> is left out.
\<close>

definition downloadAndUnzip_body ::
  "Manager \<Rightarrow> world \<Rightarrow> filesystem \<Rightarrow> path \<Rightarrow> ModelInfo \<Rightarrow> bool \<Rightarrow> download" where
  "downloadAndUnzip_body m w fs1 tmpPath info sink =
     (let destDir = GetModelPath m info
      in case NewRequest w (URL info) of
           Some err \<Rightarrow> \<lparr>returned = Returns (Some err), files = fs1, sent = [], fetched = []\<rparr>
         | None \<Rightarrow>
             (case Do w (URL info) of
                Inl err \<Rightarrow> \<lparr>returned = Returns (Some (DownloadFailed err)), files = fs1,
                             sent = [], fetched = [URL info]\<rparr>
              | Inr resp \<Rightarrow>
                  (if StatusCode resp \<noteq> 200
                   then \<lparr>returned = Returns (Some (HTTPStatus (Status resp))), files = fs1,
                         sent = [], fetched = [URL info]\<rparr>
                   else
                     let tot = totalOf resp info
                     in case copyLoop info sink tot tmpPath (passes w) 0 fs1 of
                          (LoopBlocked, fs2, out) \<Rightarrow>
                            \<lparr>returned = Blocked, files = fs2, sent = out, fetched = [URL info]\<rparr>
                        | (LoopReturn err, fs2, out) \<Rightarrow>
                            \<lparr>returned = Returns (Some err), files = fs2, sent = out,
                             fetched = [URL info]\<rparr>
                        | (LoopBreak, fs2, out) \<Rightarrow>
                            (let parentDir = butlast destDir
                             in case unzip w fs2 tmpPath parentDir of
                                  (Some err, fs3) \<Rightarrow>
                                    \<lparr>returned = Returns (Some (UnzipFailed err)), files = fs3,
                                     sent = out, fetched = [URL info]\<rparr>
                                | (None, fs3) \<Rightarrow>
                                    \<lparr>returned = Returns None, files = fs3,
                                     sent = out @ doneProgress info sink tot,
                                     fetched = [URL info]\<rparr>))))"

definition downloadAndUnzip ::
  "Manager \<Rightarrow> world \<Rightarrow> filesystem \<Rightarrow> ModelInfo \<Rightarrow> bool \<Rightarrow> download" where
  "downloadAndUnzip m w fs info sink =
     (case os_CreateTemp w fs of
        Inl err \<Rightarrow> \<lparr>returned = Returns (Some err), files = fs, sent = [], fetched = []\<rparr>
      | Inr (tmpPath, fs1) \<Rightarrow>
          deferRemove tmpPath (downloadAndUnzip_body m w fs1 tmpPath info sink))"

text \<open>
  \<open>Manager.Download\<close>.  \<open>sink\<close> says that the progress channel is not \<open>nil\<close>; a
  blocking send on it is taken to be received.
\<close>

definition Download :: "Manager \<Rightarrow> world \<Rightarrow> filesystem \<Rightarrow> ModelInfo \<Rightarrow> bool \<Rightarrow> download" where
  "Download m w fs info sink =
     (if IsDownloaded m fs info
      then \<lparr>returned = Returns None, files = fs,
            sent = (if sink then [\<lparr>ModelID = ID info, Downloaded = ModelInfo.Size info,
                                    Total = ModelInfo.Size info, Done = True, Error = None\<rparr>]
                    else []),
            fetched = []\<rparr>
      else if IsZip info then downloadAndUnzip m w fs info sink
      else downloadFile m w fs info sink)"

definition Delete :: "Manager \<Rightarrow> filesystem \<Rightarrow> ModelInfo \<Rightarrow> filesystem" where
  "Delete m fs info = os_RemoveAll fs (GetModelPath m info)"

section \<open>Package speech: recognizers and their factory\<close>

text \<open>
  The native libraries: what \<open>whisper.New\<close>, \<open>vosk.NewModel\<close> and
  \<open>vosk.NewRecognizer\<close> answer.  Native objects are known by their handles.
\<close>

record engines =
  whisper_New :: "path \<Rightarrow> error + nat"
  vosk_NewModel :: "path \<Rightarrow> error + nat"
  vosk_NewRecognizer :: "nat \<Rightarrow> error + nat"

datatype Recognizer =
    WhisperRecognizer nat
  | VoskRecognizer nat nat

definition NewWhisperFromFile :: "engines \<Rightarrow> path \<Rightarrow> error + Recognizer" where
  "NewWhisperFromFile eng modelPath =
     (case whisper_New eng modelPath of
        Inl err \<Rightarrow> Inl err
      | Inr model \<Rightarrow> Inr (WhisperRecognizer model))"

definition NewVosk :: "engines \<Rightarrow> filesystem \<Rightarrow> path \<Rightarrow> error + Recognizer" where
  "NewVosk eng fs modelPath =
     (case os_Stat fs modelPath of
        Inl err \<Rightarrow> Inl (VoskModelMissing modelPath)
      | Inr stat \<Rightarrow>
          (case vosk_NewModel eng modelPath of
             Inl err \<Rightarrow> Inl (VoskModelLoadFailed err)
           | Inr model \<Rightarrow>
               (case vosk_NewRecognizer eng model of
                  Inl err \<Rightarrow> Inl err
                | Inr rec \<Rightarrow> Inr (VoskRecognizer model rec))))"

record Factory =
  manager :: Manager
  current :: "Recognizer option"
  modelID :: string

definition NewFactory :: "Manager \<Rightarrow> Factory" where
  "NewFactory m = \<lparr>manager = m, current = None, modelID = []\<rparr>"

text \<open>The error of a constructor is wrapped by \<open>Create\<close>.\<close>

definition wrapped :: "error + Recognizer \<Rightarrow> error + Recognizer" where
  "wrapped r = (case r of Inl err \<Rightarrow> Inl (CreateRecognizerFailed err) | Inr rec \<Rightarrow> Inr rec)"

definition Create :: "engines \<Rightarrow> filesystem \<Rightarrow> Factory \<Rightarrow> string \<Rightarrow> error + Recognizer" where
  "Create eng fs f mid =
     (case GetModel mid of
        None \<Rightarrow> Inl (ModelNotFound mid)
      | Some info \<Rightarrow>
          (let modelPath = GetModelPath (manager f) info
           in if \<not> IsDownloaded (manager f) fs info then Inl (ModelNotDownloaded (Name info))
              else if Engine info = EngineWhisper then wrapped (NewWhisperFromFile eng modelPath)
              else if Engine info = EngineVosk then wrapped (NewVosk eng fs modelPath)
              else Inl (UnknownEngine (Engine info))))"

text \<open>
  \<open>Load\<close> and \<open>Swap\<close> return the error, the factory afterwards and the recognizers
  they close: \<open>Load\<close> closes the old one before it returns, \<open>Swap\<close> hands it to a
  goroutine.
\<close>

datatype closing = Closes Recognizer | GoCloses Recognizer

definition Load :: "engines \<Rightarrow> filesystem \<Rightarrow> Factory \<Rightarrow> string \<Rightarrow> error option \<times> Factory \<times> closing list" where
  "Load eng fs f mid =
     (case Create eng fs f mid of
        Inl err \<Rightarrow> (Some err, f, [])
      | Inr rec \<Rightarrow>
          (let old = current f;
               f1 = f\<lparr>current := Some rec, modelID := mid\<rparr>
           in (None, f1, (case old of None \<Rightarrow> [] | Some r \<Rightarrow> [Closes r]))))"

definition Swap :: "engines \<Rightarrow> filesystem \<Rightarrow> Factory \<Rightarrow> string \<Rightarrow> error option \<times> Factory \<times> closing list" where
  "Swap eng fs f mid =
     (case Create eng fs f mid of
        Inl err \<Rightarrow> (Some err, f, [])
      | Inr rec \<Rightarrow>
          (let old = current f;
               f1 = f\<lparr>current := Some rec, modelID := mid\<rparr>
           in (None, f1, (case old of None \<Rightarrow> [] | Some r \<Rightarrow> [GoCloses r]))))"

definition Current :: "Factory \<Rightarrow> Recognizer option" where
  "Current f = current f"

definition CurrentModelID :: "Factory \<Rightarrow> string" where
  "CurrentModelID f = modelID f"

definition IsLoaded :: "Factory \<Rightarrow> bool" where
  "IsLoaded f = (current f \<noteq> None)"

definition Factory_Close :: "Factory \<Rightarrow> Factory \<times> closing list" where
  "Factory_Close f =
     (case current f of
        None \<Rightarrow> (f, [])
      | Some r \<Rightarrow> (f\<lparr>current := None\<rparr>, [Closes r]))"

section \<open>Time and contexts\<close>

text \<open>
  An instant is a reading of the monotonic clock in nanoseconds, and a duration a number
  of nanoseconds.  A context is known by what its \<open>Err()\<close> gives at each instant:
  \<open>None\<close> as long as \<open>Done()\<close> is not ready.  \<open>WithTimeout t d\<close> is the context that
  \<open>context.WithTimeout(context.Background(), d)\<close> makes at the instant \<open>t\<close>, as long
  as its \<open>cancel\<close> has not been called.
\<close>

definition Millisecond :: int where
  "Millisecond = 1000000"

definition Second :: int where
  "Second = 1000 * Millisecond"

type_synonym Context = "int \<Rightarrow> error option"

definition WithTimeout :: "int \<Rightarrow> int \<Rightarrow> Context" where
  "WithTimeout t d = (\<lambda>t'. if t + d \<le> t' then Some DeadlineExceeded else None)"

section \<open>Package llm: text correction\<close>

subsection \<open>The two functions of package strings that are used\<close>

text \<open>
  Go strings are byte strings in UTF-8.  \<open>strings.TrimSpace\<close> takes the white space
  of Unicode off both ends; \<open>spaceRunes\<close> are the encodings of the runes for which
  \<open>unicode.IsSpace\<close> holds.
\<close>

definition spaceRunes :: "string list" where
  "spaceRunes = map (map char_of)
     [[9], [10], [11], [12], [13], [32], [194, 133], [194, 160], [225, 154, 128],
      [226, 128, 128], [226, 128, 129], [226, 128, 130], [226, 128, 131], [226, 128, 132],
      [226, 128, 133], [226, 128, 134], [226, 128, 135], [226, 128, 136], [226, 128, 137],
      [226, 128, 138], [226, 128, 168], [226, 128, 169], [226, 128, 175], [226, 129, 159],
      [227, 128, 128 :: nat]]"

definition leading :: "string list \<Rightarrow> string \<Rightarrow> string option" where
  "leading rs s = find (\<lambda>r. r \<noteq> [] \<and> take (length r) s = r) rs"

function stripLeading :: "string list \<Rightarrow> string \<Rightarrow> string" where
  "stripLeading rs s =
     (case leading rs s of
        None \<Rightarrow> s
      | Some r \<Rightarrow> stripLeading rs (drop (length r) s))"
  by pat_completeness auto
termination
proof (relation "measure (\<lambda>(rs, s). length s)")
  show "wf (measure (\<lambda>(rs, s). length s))" by simp
next
  fix rs :: "string list" and s r :: string
  assume "leading rs s = Some r"
  then have "r \<noteq> []" and "take (length r) s = r"
    by (auto simp: leading_def find_Some_iff)
  then have "s \<noteq> []" by auto
  with \<open>r \<noteq> []\<close> show "((rs, drop (length r) s), (rs, s)) \<in> measure (\<lambda>(rs, s). length s)"
    by simp
qed

definition TrimSpace :: "string \<Rightarrow> string" where
  "TrimSpace s = rev (stripLeading (map rev spaceRunes) (rev (stripLeading spaceRunes s)))"

text \<open>\<open>strings.Index\<close>: where \<open>sub\<close> first starts in \<open>s\<close>, or \<open>-1\<close>.\<close>

fun Index_from :: "int \<Rightarrow> string \<Rightarrow> string \<Rightarrow> int" where
  "Index_from i [] sub = (if sub = [] then i else - 1)"
| "Index_from i (c # cs) sub =
     (if take (length sub) (c # cs) = sub then i else Index_from (i + 1) cs sub)"

definition Index :: "string \<Rightarrow> string \<Rightarrow> int" where
  "Index s sub = Index_from 0 s sub"

subsection \<open>The model\<close>

record LlamaModel =
  model :: "nat option"
  ctx :: "nat option"
  sampler :: "nat option"
  nCtx :: int

text \<open>
  What llama.cpp answers to the calls that \<open>Generate\<close> makes.  A token is a
  \<open>llama_token\<close>.  The context of a loaded model holds the tokens decoded since its
  memory was cleared, and what the library answers depends on them:
  \<^item> \<open>llama_tokenize text cap\<close>, for a buffer of \<open>cap\<close> tokens: the number of tokens
    and the tokens written, or a negative number, minus the size the buffer needs;
  \<^item> \<open>llama_decode held batch\<close>, when the context holds \<open>held\<close>: the code returned
    (0 when the batch has been decoded) and the time the call takes;
  \<^item> \<open>llama_sampler_sample held\<close>: the token drawn when the context holds \<open>held\<close>;
  \<^item> \<open>llama_vocab_is_eog\<close>: whether a token ends the generation;
  \<^item> \<open>llama_token_to_piece token cap\<close>, for a buffer of \<open>cap\<close> bytes: the number of
    bytes and the bytes written, or a negative number as for \<open>llama_tokenize\<close>.

  The time of a generation is the time of its \<open>llama_decode\<close> calls.
\<close>

type_synonym llama_token = int

record llama_cpp =
  llama_tokenize :: "string \<Rightarrow> nat \<Rightarrow> int \<times> llama_token list"
  llama_decode :: "llama_token list \<Rightarrow> llama_token list \<Rightarrow> int \<times> int"
  llama_sampler_sample :: "llama_token list \<Rightarrow> llama_token"
  llama_vocab_is_eog :: "llama_token \<Rightarrow> bool"
  llama_token_to_piece :: "llama_token \<Rightarrow> nat \<Rightarrow> int \<times> string"

text \<open>\<open>tokenize\<close> asks again with the size wanted when the first buffer was too small.\<close>

definition tokenize :: "llama_cpp \<Rightarrow> string \<Rightarrow> error + llama_token list" where
  "tokenize llama text =
     (case llama_tokenize llama text (length text + 16) of
        (n, tokens) \<Rightarrow>
          (if n < 0
           then (case llama_tokenize llama text (nat (- n)) of
                   (n', tokens') \<Rightarrow>
                     (if n' < 0 then Inl TokenizationFailed else Inr (take (nat n') tokens')))
           else Inr (take (nat n) tokens)))"

definition tokenToPiece :: "llama_cpp \<Rightarrow> llama_token \<Rightarrow> string" where
  "tokenToPiece llama token =
     (case llama_token_to_piece llama token 64 of
        (n, buf) \<Rightarrow>
          (if n < 0
           then (case llama_token_to_piece llama token (nat (- n)) of
                   (n', buf') \<Rightarrow> (if n' \<le> 0 then [] else take (nat n') buf'))
           else if n \<le> 0 then [] else take (nat n) buf))"

text \<open>
  The loop of \<open>Generate\<close> with \<open>k\<close> rounds left, \<open>held\<close> in the context, \<open>nCur\<close>
  tokens counted and \<open>result\<close> built so far, at the instant \<open>t\<close>.  A round ends the
  loop on an end-of-generation token, when \<open>llama_decode\<close> does not return 0, and when
  the context is full; each time the function goes on to return the result with no error.
\<close>

fun generateLoop ::
  "llama_cpp \<Rightarrow> LlamaModel \<Rightarrow> nat \<Rightarrow> llama_token list \<Rightarrow> int \<Rightarrow> string \<Rightarrow> int
     \<Rightarrow> string \<times> int" where
  "generateLoop llama m 0 held nCur result t = (result, t)"
| "generateLoop llama m (Suc k) held nCur result t =
     (let newToken = llama_sampler_sample llama held
      in if llama_vocab_is_eog llama newToken then (result, t)
         else
           (let piece = tokenToPiece llama newToken;
                result1 = result @ piece
            in case llama_decode llama held [newToken] of
                 (rc, d) \<Rightarrow>
                   (if rc \<noteq> 0 then (result1, t + d)
                    else
                      (let nCur1 = nCur + 1
                       in if nCur1 \<ge> nCtx m then (result1, t + d)
                          else generateLoop llama m k (held @ [newToken]) nCur1 result1 (t + d)))))"

text \<open>
  \<open>Generate\<close> is entered at the instant \<open>t\<close> and gives, with its result, the instant
  at which it returns.  It takes no \<open>context.Context\<close>.  The memory of the llama.cpp
  context is cleared before the prompt is decoded, so the prompt is decoded with
  nothing held.
\<close>

definition Generate ::
  "llama_cpp \<Rightarrow> LlamaModel \<Rightarrow> string \<Rightarrow> int \<Rightarrow> int \<Rightarrow> (error + string) \<times> int" where
  "Generate llama m prompt maxTokens t =
     (if model m = None \<or> ctx m = None then (Inl ModelNotLoaded, t)
      else
        let maxTokens1 = (if maxTokens \<le> 0 then 256 else maxTokens)
        in case tokenize llama prompt of
             Inl err \<Rightarrow> (Inl err, t)
           | Inr tokens \<Rightarrow>
               (if length tokens = 0 then (Inl EmptyPrompt, t)
                else
                  (case llama_decode llama [] tokens of
                     (rc, d) \<Rightarrow>
                       (if rc \<noteq> 0 then (Inl DecodePromptFailed, t + d)
                        else
                          (case generateLoop llama m (nat maxTokens1) tokens
                                  (int (length tokens)) [] (t + d) of
                             (result, t') \<Rightarrow> (Inr result, t'))))))"

definition systemPrompt :: string where
  "systemPrompt = map char_of
     [208, 162, 209, 139, 32, 208, 191, 208, 190, 208, 188, 208, 190, 209, 137, 208, 189,
      208, 184, 208, 186, 32, 208, 180, 208, 187, 209, 143, 32, 208, 184, 209, 129, 208,
      191, 209, 128, 208, 176, 208, 178, 208, 187, 208, 181, 208, 189, 208, 184, 209, 143,
      32, 208, 190, 209, 136, 208, 184, 208, 177, 208, 190, 208, 186, 32, 209, 128, 208,
      176, 209, 129, 208, 191, 208, 190, 208, 183, 208, 189, 208, 176, 208, 178, 208, 176,
      208, 189, 208, 184, 209, 143, 32, 209, 128, 208, 181, 209, 135, 208, 184, 46, 32,
      208, 152, 209, 129, 208, 191, 209, 128, 208, 176, 208, 178, 209, 140, 32, 208, 190,
      209, 136, 208, 184, 208, 177, 208, 186, 208, 184, 32, 208, 184, 32, 209, 128, 208,
      176, 209, 129, 209, 129, 209, 130, 208, 176, 208, 178, 209, 140, 32, 208, 183, 208,
      189, 208, 176, 208, 186, 208, 184, 32, 208, 191, 209, 128, 208, 181, 208, 191, 208,
      184, 208, 189, 208, 176, 208, 189, 208, 184, 209, 143, 46, 32, 208, 146, 208, 181,
      209, 128, 208, 189, 208, 184, 32, 209, 130, 208, 190, 208, 187, 209, 140, 208, 186,
      208, 190, 32, 208, 184, 209, 129, 208, 191, 209, 128, 208, 176, 208, 178, 208, 187,
      208, 181, 208, 189, 208, 189, 209, 139, 208, 185, 32, 209, 130, 208, 181, 208, 186,
      209, 129, 209, 130, 32, 208, 177, 208, 181, 208, 183, 32, 208, 191, 208, 190, 209,
      143, 209, 129, 208, 189, 208, 181, 208, 189, 208, 184, 208, 185, 46 :: nat]"

definition promptFor :: "string \<Rightarrow> string" where
  "promptFor text =
     ''<|im_start|>system'' @ [CHR 0x0A] @ systemPrompt @ ''<|im_end|>'' @ [CHR 0x0A]
     @ ''<|im_start|>user'' @ [CHR 0x0A] @ text @ ''<|im_end|>'' @ [CHR 0x0A]
     @ ''<|im_start|>assistant'' @ [CHR 0x0A]"

text \<open>
  \<open>CorrectText\<close> returns a text and an error; here also the instant at which it
  returns.  It is entered at the instant \<open>t\<close>, and the \<open>select\<close> on \<open>ctx.Done()\<close>
  sees the context \<open>c\<close> at that instant.
\<close>

definition CorrectText ::
  "llama_cpp \<Rightarrow> Context \<Rightarrow> LlamaModel \<Rightarrow> string \<Rightarrow> int \<Rightarrow> (string \<times> error option) \<times> int" where
  "CorrectText llama c m text t =
     (if TrimSpace text = [] then ((text, None), t)
      else
        let prompt = promptFor text
        in case c t of
             Some err \<Rightarrow> ((text, Some err), t)
           | None \<Rightarrow>
               (case Generate llama m prompt 256 t of
                  (Inl err, t') \<Rightarrow> ((text, Some (LlmGenerate err)), t')
                | (Inr result, t') \<Rightarrow>
                    (let corrected = TrimSpace result;
                         idx = Index corrected ''<|im_end|>''
                     in if idx \<noteq> - 1 then ((TrimSpace (take (nat idx) corrected), None), t')
                        else ((corrected, None), t'))))"

section \<open>Package audio: the recorder\<close>

text \<open>
  A \<open>float32\<close> sample is kept as its IEEE-754 bit pattern; the samples of a slice made
  by \<open>make([]float32, n)\<close> are \<open>+0.0\<close>, the word \<open>0\<close>.  The recorder does no
  arithmetic on samples.
\<close>

type_synonym sample = "32 word"

definition SampleRate :: nat where
  "SampleRate = 16000"

definition FramesPerBuffer :: nat where
  "FramesPerBuffer = 1024"

definition MinSamples :: nat where
  "MinSamples = SampleRate div 5"

text \<open>A PortAudio stream is known by its handle; the \<open>done\<close> channel by whether it is closed.\<close>

type_synonym pa_stream = nat

datatype done_chan = DoneChan (closed: bool)

record Recorder =
  stream :: "pa_stream option"
  buffer :: "sample list"
  samples :: "sample list"
  running :: bool
  done_ch :: "done_chan option"

text \<open>What PortAudio answers to the two calls of \<open>Start\<close>.\<close>

record portaudio =
  OpenDefaultStream :: "error + pa_stream"
  stream_Start :: "pa_stream \<Rightarrow> error option"

datatype audio_effect =
    StreamStarted pa_stream
  | StreamStopped pa_stream
  | StreamClosed pa_stream
  | GoRecordLoop

text \<open>
  \<open>Recorder.Start\<close>: the result is the returned error (\<open>None\<close> is \<open>nil\<close>), the
  recorder afterwards and the calls made on streams, in order.
\<close>

definition Start :: "portaudio \<Rightarrow> Recorder \<Rightarrow> error option \<times> Recorder \<times> audio_effect list" where
  "Start pa r =
     (if running r then (None, r, [])
      else
        let r1 = r\<lparr>samples := [], done_ch := Some (DoneChan False)\<rparr>
        in case OpenDefaultStream pa of
             Inl err \<Rightarrow> (Some err, r1, [])
           | Inr s \<Rightarrow>
               let r2 = r1\<lparr>stream := Some s, running := True\<rparr>
               in (case stream_Start pa s of
                     Some err \<Rightarrow> (Some err, r2\<lparr>running := False\<rparr>, [StreamClosed s])
                   | None \<Rightarrow> (None, r2, [StreamStarted s, GoRecordLoop])))"

text \<open>
  One pass of \<open>recordLoop\<close> in which \<open>stream.Read\<close> succeeded and left \<open>buf\<close>
  in \<open>r.buffer\<close>: a copy of the buffer is appended while the recorder runs.
\<close>

definition recordLoop_read :: "sample list \<Rightarrow> Recorder \<Rightarrow> Recorder" where
  "recordLoop_read buf r =
     (let r1 = r\<lparr>buffer := buf\<rparr>
      in if running r1 then r1\<lparr>samples := samples r1 @ buffer r1\<rparr> else r1)"

text \<open>
  \<open>Recorder.Stop\<close>: \<open>nil\<close> (the empty slice) when the recorder does not run;
  otherwise the captured samples, padded with zero samples up to \<open>MinSamples\<close>.
\<close>

definition Stop :: "Recorder \<Rightarrow> sample list \<times> Recorder \<times> audio_effect list" where
  "Stop r =
     (if \<not> running r then ([], r, [])
      else
        let stream0 = stream r;
            samples0 = samples r;
            r1 = r\<lparr>running := False, stream := None, samples := []\<rparr>;
            effs = (case stream0 of None \<Rightarrow> [] | Some s \<Rightarrow> [StreamStopped s, StreamClosed s]);
            samples1 = (if length samples0 < MinSamples
                        then samples0 @ replicate (MinSamples - length samples0) 0
                        else samples0)
        in (samples1, r1, effs))"

definition IsRecording :: "Recorder \<Rightarrow> bool" where
  "IsRecording r = running r"

section \<open>Package app: stopping a recording\<close>

definition MinRecordingDuration :: int where
  "MinRecordingDuration = 500 * Millisecond"

text \<open>
  Times are nanoseconds on the monotonic clock; a \<open>time.Duration\<close> is an \<open>int64\<close>,
  and \<open>time.Since\<close> gives the nearest one when the difference does not fit.
\<close>

definition time_Since :: "int \<Rightarrow> int \<Rightarrow> int" where
  "time_Since now t = max (- (2 ^ 63)) (min (2 ^ 63 - 1) (now - t))"

record Config =
  language :: string
  llmEnabled :: bool

record App =
  config :: Config
  recorder :: Recorder
  speechFactory :: Factory
  llmModel :: "LlamaModel option"
  llmModelID :: string
  recordingStart :: int
  processing :: bool

datatype tray_State = StateIdle | StateRecording | StateProcessing

datatype waveform_State = StateSpeechProcess | StateLLMProcess

text \<open>
  What the application does to its collaborators, in the order it does it: the
  waveform window, the tray, the notifier (an error by the key of its message), the
  audio streams, and the two engines.
\<close>

datatype effect =
    WaveformSetState waveform_State
  | WaveformHide
  | WaveformSetResult string string
  | TraySetState tray_State
  | NotifierProcessing
  | NotifierEmpty
  | NotifierError string
  | Audio audio_effect
  | CallsTranscribe Recognizer "sample list" string
  | CallsCorrectText LlamaModel string

text \<open>
  What \<open>stopRecording\<close> meets: the clock when it takes \<open>time.Since\<close>, the
  recognizer's \<open>Transcribe\<close>, the clock when the goroutine makes the context with its
  timeout of 30 seconds and when it enters \<open>CorrectText\<close>, and llama.cpp.
\<close>

record surroundings =
  now :: int
  Transcribe :: "Recognizer \<Rightarrow> sample list \<Rightarrow> string \<Rightarrow> error + string"
  ctx_made :: int
  ctx_checked :: int
  llama :: llama_cpp

text \<open>
  The goroutine that \<open>stopRecording\<close> starts, run to its end; the deferred function
  clears \<open>processing\<close> on every way out.
\<close>

definition recognize ::
  "surroundings \<Rightarrow> App \<Rightarrow> Recognizer \<Rightarrow> sample list \<Rightarrow> App \<times> effect list" where
  "recognize env a recognizer smpls =
     (let lang = language (config a);
          a' = a\<lparr>processing := False\<rparr>
      in case Transcribe env recognizer smpls lang of
           Inl err \<Rightarrow>
             (a', [CallsTranscribe recognizer smpls lang, NotifierError ''error_recognition'',
                   WaveformHide, TraySetState StateIdle])
         | Inr originalText \<Rightarrow>
             (if originalText = []
              then (a', [CallsTranscribe recognizer smpls lang, NotifierEmpty, WaveformHide,
                         TraySetState StateIdle])
              else
                (case (if llmEnabled (config a) then llmModel a else None) of
                   None \<Rightarrow>
                     (a', [CallsTranscribe recognizer smpls lang,
                           WaveformSetResult originalText [], TraySetState StateIdle])
                 | Some m \<Rightarrow>
                     (let c = WithTimeout (ctx_made env) (30 * Second);
                          (corrected, err) =
                            fst (CorrectText (llama env) c m originalText (ctx_checked env));
                          correctedText = (if err = None \<and> corrected \<noteq> [] then corrected else [])
                      in (a', [CallsTranscribe recognizer smpls lang,
                               WaveformSetState StateLLMProcess,
                               CallsCorrectText m originalText,
                               WaveformSetResult originalText correctedText,
                               TraySetState StateIdle])))))"

definition stopRecording :: "surroundings \<Rightarrow> App \<Rightarrow> App \<times> effect list" where
  "stopRecording env a =
     (if \<not> IsRecording (recorder a) \<or> processing a then (a, [])
      else
        let a1 = a\<lparr>processing := True\<rparr>;
            elapsed = time_Since (now env) (recordingStart a1);
            recognizer = Current (speechFactory a1);
            (smpls, r, audio) = Stop (recorder a1);
            a2 = a1\<lparr>recorder := r\<rparr>;
            eff = WaveformSetState StateSpeechProcess # map Audio audio
        in if elapsed < MinRecordingDuration
           then (a2\<lparr>processing := False\<rparr>, eff @ [WaveformHide, TraySetState StateIdle])
           else
             (case recognizer of
                None \<Rightarrow>
                  (a2\<lparr>processing := False\<rparr>,
                   eff @ [TraySetState StateProcessing, NotifierProcessing,
                          NotifierError ''error_model_not_loaded'', WaveformHide,
                          TraySetState StateIdle])
              | Some rec \<Rightarrow>
                  (if length smpls = 0
                   then (a2\<lparr>processing := False\<rparr>,
                         eff @ [TraySetState StateProcessing, NotifierProcessing,
                                NotifierEmpty, WaveformHide, TraySetState StateIdle])
                   else
                     (let (a3, eff3) = recognize env a2 rec smpls
                      in (a3, eff @ [TraySetState StateProcessing, NotifierProcessing] @ eff3)))))"

text \<open>The calls of the recognition engine and of the correction stage among some effects.\<close>

fun isTranscribe :: "effect \<Rightarrow> bool" where
  "isTranscribe (CallsTranscribe r s l) = True"
| "isTranscribe e = False"

fun isCorrectText :: "effect \<Rightarrow> bool" where
  "isCorrectText (CallsCorrectText m t) = True"
| "isCorrectText e = False"

fun isError :: "effect \<Rightarrow> bool" where
  "isError (NotifierError k) = True"
| "isError e = False"

section \<open>Example states\<close>

text \<open>
  A recorder that has been started and has read one short buffer, an application that is
  recording with it, and five surroundings: a stop after 0.1 seconds, a stop after two
  seconds with a recognizer that hears nothing, one with a correction whose prompt is
  not decoded, one with a correction that takes 45 seconds, and one with a correction
  whose first token is not decoded.
\<close>

definition pa_ok :: portaudio where
  "pa_ok = \<lparr>OpenDefaultStream = Inr 7, stream_Start = (\<lambda>s. None)\<rparr>"

definition recorder_new :: Recorder where
  "recorder_new = \<lparr>stream = None, buffer = replicate FramesPerBuffer 0, samples = [],
                    running = False, done_ch = None\<rparr>"

definition recorder_short :: Recorder where
  "recorder_short = recordLoop_read [5, 7, 9] (fst (snd (Start pa_ok recorder_new)))"

definition llm_loaded :: LlamaModel where
  "llm_loaded = \<lparr>model = Some 21, ctx = Some 22, sampler = Some 23, nCtx = 2048\<rparr>"

definition app_recording :: App where
  "app_recording =
     \<lparr>config = \<lparr>language = ''ru'', llmEnabled = True\<rparr>,
      recorder = recorder_short,
      speechFactory = \<lparr>manager = \<lparr>modelsDir = [''opt'', ''shofar'', ''models'']\<rparr>,
                       current = Some (WhisperRecognizer 11), modelID = ''whisper-tiny-q5''\<rparr>,
      llmModel = Some llm_loaded,
      llmModelID = ''llm-qwen2.5-0.5b'',
      recordingStart = 1 * Second,
      processing = False\<rparr>"

text \<open>
  Three states of llama.cpp.  In each the tokenizer gives one token for a byte of the
  prompt, and the sampler draws the token 300 (\<open>hello\<close>) after a prompt that ends
  with a line feed, then 301 (\<open>world\<close> after a space), then the end-of-generation
  token 302.  In the first every \<open>llama_decode\<close> succeeds, after 5 seconds for the
  prompt and 20 seconds for a token; in the second none does; in the third that of
  the prompt does and the next one does not.
\<close>

definition llama_slow :: llama_cpp where
  "llama_slow =
     \<lparr>llama_tokenize = (\<lambda>text cap. (int (length text), map of_char text)),
      llama_decode = (\<lambda>held batch. (0, if held = [] then 5 * Second else 20 * Second)),
      llama_sampler_sample =
        (\<lambda>held. if held \<noteq> [] \<and> last held = 10 then 300
                else if held \<noteq> [] \<and> last held = 300 then 301 else 302),
      llama_vocab_is_eog = (\<lambda>token. token = 302),
      llama_token_to_piece =
        (\<lambda>token cap. if token = 300 then (5, ''hello'')
                     else if token = 301 then (6, '' world'') else (0, []))\<rparr>"

definition llama_failing :: llama_cpp where
  "llama_failing = llama_slow\<lparr>llama_decode := (\<lambda>held batch. (1, 2 * Second))\<rparr>"

definition llama_breaking :: llama_cpp where
  "llama_breaking =
     llama_slow\<lparr>llama_decode := (\<lambda>held batch. (if held = [] then 0 else 1, 2 * Second))\<rparr>"

definition hears_helo :: "Recognizer \<Rightarrow> sample list \<Rightarrow> string \<Rightarrow> error + string" where
  "hears_helo = (\<lambda>r s l. Inr ''helo wrld'')"

definition env_failing :: surroundings where
  "env_failing =
     \<lparr>now = 3 * Second, Transcribe = hears_helo,
      ctx_made = 5 * Second, ctx_checked = 5 * Second, llama = llama_failing\<rparr>"

definition env_breaking :: surroundings where
  "env_breaking =
     \<lparr>now = 3 * Second, Transcribe = hears_helo,
      ctx_made = 5 * Second, ctx_checked = 5 * Second, llama = llama_breaking\<rparr>"

definition env_slow :: surroundings where
  "env_slow =
     \<lparr>now = 3 * Second, Transcribe = hears_helo,
      ctx_made = 5 * Second, ctx_checked = 5 * Second, llama = llama_slow\<rparr>"

definition env_quick :: surroundings where
  "env_quick =
     \<lparr>now = 1100 * Millisecond, Transcribe = hears_helo,
      ctx_made = 5 * Second, ctx_checked = 5 * Second, llama = llama_slow\<rparr>"

definition env_silence :: surroundings where
  "env_silence =
     \<lparr>now = 3 * Second, Transcribe = (\<lambda>r s l. Inr []),
      ctx_made = 5 * Second, ctx_checked = 5 * Second, llama = llama_slow\<rparr>"

text \<open>
  A manager with its directories and nothing downloaded, the same with the model
  \<open>whisper-base\<close> in place, native libraries that work and that fail, and a factory
  with a recognizer loaded.
\<close>

definition models_dir :: path where
  "models_dir = [''opt'', ''shofar'', ''models'']"

definition mgr :: Manager where
  "mgr = \<lparr>modelsDir = models_dir\<rparr>"

definition fs_fresh :: filesystem where
  "fs_fresh =
     \<lparr>nodes = [([''opt''], Dir), ([''opt'', ''shofar''], Dir), (models_dir, Dir),
               (models_dir @ [''whisper''], Dir), (models_dir @ [''vosk''], Dir),
               (models_dir @ [''llm''], Dir), ([''tmp''], Dir)],
      dirSize = 4096\<rparr>"

definition fs_with_base :: filesystem where
  "fs_with_base = store fs_fresh (models_dir @ [''whisper'', ''ggml-base.bin'']) (File [103, 103, 109, 108])"

definition engines_ok :: engines where
  "engines_ok = \<lparr>whisper_New = (\<lambda>p. Inr 31), vosk_NewModel = (\<lambda>p. Inr 32),
                  vosk_NewRecognizer = (\<lambda>m. Inr 33)\<rparr>"

definition engines_broken :: engines where
  "engines_broken = \<lparr>whisper_New = (\<lambda>p. Inl (External ''failed to load model'')),
                      vosk_NewModel = (\<lambda>p. Inl (External ''failed to load model'')),
                      vosk_NewRecognizer = (\<lambda>m. Inl (External ''failed to create recognizer''))\<rparr>"

definition whisper_base :: ModelInfo where
  "whisper_base = Registry ! 5"

definition factory_loaded :: Factory where
  "factory_loaded = \<lparr>manager = mgr, current = Some (WhisperRecognizer 11),
                      modelID = ''whisper-tiny-q5''\<rparr>"

section \<open>Quantities the properties of a download speak of\<close>

text \<open>The number of bytes that the passes of the copy loop offer.\<close>

definition received :: "pass list \<Rightarrow> int" where
  "received ps = int (sum_list (map (\<lambda>p. length (chunk p)) ps))"

text \<open>
  The total that a download announces in its progress values: the one of the response,
  when there is a response.
\<close>

definition announced :: "world \<Rightarrow> ModelInfo \<Rightarrow> int" where
  "announced w info =
     (case Do w (URL info) of Inr resp \<Rightarrow> totalOf resp info | Inl err \<Rightarrow> ModelInfo.Size info)"

text \<open>The progress values that the copy loop of a download sends.\<close>

definition loop_out ::
  "ModelInfo \<Rightarrow> bool \<Rightarrow> world \<Rightarrow> path \<Rightarrow> filesystem \<Rightarrow> Progress list" where
  "loop_out info sink w tmp fs1 =
     snd (snd (copyLoop info sink (announced w info) tmp (passes w) 0 fs1))"

text \<open>The same chunk written \<open>k\<close> times to a file.\<close>

fun writes :: "nat \<Rightarrow> path \<Rightarrow> byte list \<Rightarrow> filesystem \<Rightarrow> filesystem" where
  "writes 0 p c fs = fs"
| "writes (Suc k) p c fs = writes k p c (file_Write fs p c)"

text \<open>
  Worlds for downloads: one without a network; one that serves eight bytes with their
  length announced; one that serves the model \<open>whisper-tiny-q5\<close> in chunked
  encoding, so that no length is announced, as 1024 reads of 32 KiB and one more byte;
  and one that serves, for \<open>vosk-ru-small\<close>, an archive whose second entry fails its
  checksum.  The file systems \<open>fs_zip\<close> to \<open>fs_c\<close> are the ones this last download
  goes through.

  The body of that archive, \<open>damaged_body\<close>, is a zip file of 459 bytes with three
  entries stored without compression: the directory \<open>vosk-model-small-ru-0.22/\<close>, the
  file \<open>am/final.mdl\<close> in it with the bytes 1, 2, and the file \<open>conf/model.conf\<close>
  with the bytes 3, 4, 5.  The CRC-32 recorded for \<open>final.mdl\<close>, in its header and
  in the central directory, is C1CB7204, that of the bytes 1, 3, and not B6CC4292,
  that of the bytes it holds; \<open>archive/zip\<close> opens such a file, and reading the entry
  to its end gives the two bytes and then the error \<open>zip: checksum error\<close>.
\<close>

definition world_offline :: world where
  "world_offline =
     \<lparr>NewRequest = (\<lambda>u. None),
      Do = (\<lambda>u. Inl (External ''dial tcp: no route to host'')),
      passes = [],
      TempDir = [''tmp''],
      tempName = Inr ''model-123.zip'',
      zip_OpenReader = (\<lambda>bs. Inl (External ''zip: not a valid zip file''))\<rparr>"

definition ok_8 :: Response where
  "ok_8 = \<lparr>Status = ''200 OK'', StatusCode = 200, ContentLength = 8\<rparr>"

definition world_8 :: world where
  "world_8 =
     \<lparr>NewRequest = (\<lambda>u. None),
      Do = (\<lambda>u. Inr ok_8),
      passes = [\<lparr>ctx_err = None, chunk = [103, 103, 109, 108], read_err = None,
                 write_err = None, sink_ready = True\<rparr>,
                \<lparr>ctx_err = None, chunk = [1, 0, 0, 0], read_err = None,
                 write_err = None, sink_ready = True\<rparr>,
                \<lparr>ctx_err = None, chunk = [], read_err = Some EOF,
                 write_err = None, sink_ready = True\<rparr>],
      TempDir = [''tmp''],
      tempName = Inr ''model-123.zip'',
      zip_OpenReader = (\<lambda>bs. Inl (External ''zip: not a valid zip file''))\<rparr>"

definition whisper_tiny_q5 :: ModelInfo where
  "whisper_tiny_q5 = Registry ! 0"

definition chunked :: Response where
  "chunked = \<lparr>Status = ''200 OK'', StatusCode = 200, ContentLength = - 1\<rparr>"

definition pass_32k :: pass where
  "pass_32k = \<lparr>ctx_err = None, chunk = replicate (32 * 1024) 0, read_err = None,
                write_err = None, sink_ready = False\<rparr>"

definition pass_tail :: pass where
  "pass_tail = \<lparr>ctx_err = None, chunk = [0], read_err = Some EOF,
                 write_err = None, sink_ready = True\<rparr>"

definition world_chunked :: world where
  "world_chunked =
     \<lparr>NewRequest = (\<lambda>u. None),
      Do = (\<lambda>u. Inr chunked),
      passes = replicate 1024 pass_32k @ [pass_tail],
      TempDir = [''tmp''],
      tempName = Inr ''model-123.zip'',
      zip_OpenReader = (\<lambda>bs. Inl (External ''zip: not a valid zip file''))\<rparr>"

definition vosk_ru_small :: ModelInfo where
  "vosk_ru_small = Registry ! 7"

definition damaged_body :: "byte list" where
  "damaged_body =
     [80, 75, 3, 4, 20, 0, 0, 0, 0, 0, 0, 0, 33, 88, 0, 0, 0, 0, 0, 0, 0, 0, 0, 0, 0,
      0, 25, 0, 0, 0, 118, 111, 115, 107, 45, 109, 111, 100, 101, 108, 45, 115, 109,
      97, 108, 108, 45, 114, 117, 45, 48, 46, 50, 50, 47, 80, 75, 3, 4, 20, 0, 0, 0,
      0, 0, 0, 0, 33, 88, 4, 114, 203, 193, 2, 0, 0, 0, 2, 0, 0, 0, 37, 0, 0, 0, 118,
      111, 115, 107, 45, 109, 111, 100, 101, 108, 45, 115, 109, 97, 108, 108, 45, 114,
      117, 45, 48, 46, 50, 50, 47, 97, 109, 47, 102, 105, 110, 97, 108, 46, 109, 100,
      108, 1, 2, 80, 75, 3, 4, 20, 0, 0, 0, 0, 0, 0, 0, 33, 88, 192, 86, 1, 233, 3, 0,
      0, 0, 3, 0, 0, 0, 40, 0, 0, 0, 118, 111, 115, 107, 45, 109, 111, 100, 101, 108,
      45, 115, 109, 97, 108, 108, 45, 114, 117, 45, 48, 46, 50, 50, 47, 99, 111, 110,
      102, 47, 109, 111, 100, 101, 108, 46, 99, 111, 110, 102, 3, 4, 5, 80, 75, 1, 2,
      20, 3, 20, 0, 0, 0, 0, 0, 0, 0, 33, 88, 0, 0, 0, 0, 0, 0, 0, 0, 0, 0, 0, 0, 25,
      0, 0, 0, 0, 0, 0, 0, 0, 0, 16, 0, 237, 65, 0, 0, 0, 0, 118, 111, 115, 107, 45,
      109, 111, 100, 101, 108, 45, 115, 109, 97, 108, 108, 45, 114, 117, 45, 48, 46,
      50, 50, 47, 80, 75, 1, 2, 20, 3, 20, 0, 0, 0, 0, 0, 0, 0, 33, 88, 4, 114, 203,
      193, 2, 0, 0, 0, 2, 0, 0, 0, 37, 0, 0, 0, 0, 0, 0, 0, 0, 0, 0, 0, 164, 129, 55,
      0, 0, 0, 118, 111, 115, 107, 45, 109, 111, 100, 101, 108, 45, 115, 109, 97, 108,
      108, 45, 114, 117, 45, 48, 46, 50, 50, 47, 97, 109, 47, 102, 105, 110, 97, 108,
      46, 109, 100, 108, 80, 75, 1, 2, 20, 3, 20, 0, 0, 0, 0, 0, 0, 0, 33, 88, 192,
      86, 1, 233, 3, 0, 0, 0, 3, 0, 0, 0, 40, 0, 0, 0, 0, 0, 0, 0, 0, 0, 0, 0, 164,
      129, 124, 0, 0, 0, 118, 111, 115, 107, 45, 109, 111, 100, 101, 108, 45, 115,
      109, 97, 108, 108, 45, 114, 117, 45, 48, 46, 50, 50, 47, 99, 111, 110, 102, 47,
      109, 111, 100, 101, 108, 46, 99, 111, 110, 102, 80, 75, 5, 6, 0, 0, 0, 0, 3, 0,
      3, 0, 240, 0, 0, 0, 197, 0, 0, 0, 0, 0]"

definition ok_zip :: Response where
  "ok_zip = \<lparr>Status = ''200 OK'', StatusCode = 200, ContentLength = 459\<rparr>"

definition damaged_archive :: "zip_File list" where
  "damaged_archive =
     [\<lparr>zName = [''vosk-model-small-ru-0.22''], zIsDir = True, open_err = None,
       content = [], copy_err = None\<rparr>,
      \<lparr>zName = [''vosk-model-small-ru-0.22'', ''am'', ''final.mdl''], zIsDir = False,
       open_err = None, content = [1, 2], copy_err = Some (External ''zip: checksum error'')\<rparr>,
      \<lparr>zName = [''vosk-model-small-ru-0.22'', ''conf'', ''model.conf''], zIsDir = False,
       open_err = None, content = [3, 4, 5], copy_err = None\<rparr>]"

definition world_damaged :: world where
  "world_damaged =
     \<lparr>NewRequest = (\<lambda>u. None),
      Do = (\<lambda>u. Inr ok_zip),
      passes = [\<lparr>ctx_err = None, chunk = damaged_body, read_err = Some EOF,
                 write_err = None, sink_ready = True\<rparr>],
      TempDir = [''tmp''],
      tempName = Inr ''model-123.zip'',
      zip_OpenReader =
        (\<lambda>bs. if bs = damaged_body then Inr damaged_archive
              else Inl (External ''zip: not a valid zip file''))\<rparr>"

definition fs_zip :: filesystem where
  "fs_zip = store fs_fresh [''tmp'', ''model-123.zip''] (File damaged_body)"

definition fs_a :: filesystem where
  "fs_a = store fs_zip (models_dir @ [''vosk'', ''vosk-model-small-ru-0.22'']) Dir"

definition fs_b :: filesystem where
  "fs_b = store fs_a (models_dir @ [''vosk'', ''vosk-model-small-ru-0.22'', ''am'']) Dir"

definition fs_c :: filesystem where
  "fs_c = store fs_b (models_dir @ [''vosk'', ''vosk-model-small-ru-0.22'', ''am'', ''final.mdl''])
            (File [1, 2])"

text \<open>A file system with a Whisper, a Vosk and a correction model in place.\<close>

definition llm_qwen_05b :: ModelInfo where
  "llm_qwen_05b = Registry ! 9"

definition fs_with_all :: filesystem where
  "fs_with_all =
     store (store fs_with_base (models_dir @ [''vosk'', ''vosk-model-small-ru-0.22'']) Dir)
       (models_dir @ [''llm'', ''qwen2.5-0.5b-instruct-q4_k_m.gguf'']) (File [71, 71, 85, 70])"

text \<open>A world that answers with an empty body.\<close>

definition ok_empty :: Response where
  "ok_empty = \<lparr>Status = ''200 OK'', StatusCode = 200, ContentLength = 0\<rparr>"

definition world_empty :: world where
  "world_empty =
     \<lparr>NewRequest = (\<lambda>u. None),
      Do = (\<lambda>u. Inr ok_empty),
      passes = [\<lparr>ctx_err = None, chunk = [], read_err = Some EOF,
                 write_err = None, sink_ready = True\<rparr>],
      TempDir = [''tmp''],
      tempName = Inr ''model-123.zip'',
      zip_OpenReader = (\<lambda>bs. Inl (External ''zip: not a valid zip file''))\<rparr>"

section \<open>Properties of the recorder\<close>

lemma recorder_short_eq:
  "recorder_short = \<lparr>stream = Some 7, buffer = [5, 7, 9], samples = [5, 7, 9], running = True,
                      done_ch = Some (DoneChan False)\<rparr>"
  by (simp add: recorder_short_def recordLoop_read_def Start_def pa_ok_def recorder_new_def Let_def)

lemma Stop_not_nil: "running r \<Longrightarrow> fst (Stop r) \<noteq> []"
  by (auto simp: Stop_def Let_def MinSamples_def SampleRate_def)

text \<open>
  C10.  \<open>Start\<close> on a recorder that is already recording returns \<open>nil\<close>, makes no
  call on any stream and leaves the recorder (its stream and its accumulated samples
  among the rest) as it was: the capture is not restarted and nothing is cleared.
\<close>

theorem Start_while_running:
  "running r \<Longrightarrow> Start pa r = (None, r, [])"
  by (simp add: Start_def)

theorem Start_while_running_witness:
  "running recorder_short
   \<and> Start pa_ok recorder_short = (None, recorder_short, [])
   \<and> samples (fst (snd (Start pa_ok recorder_short))) = [5, 7, 9]
   \<and> stream (fst (snd (Start pa_ok recorder_short))) = Some 7"
  using Start_while_running [of recorder_short pa_ok]
  by (simp add: recorder_short_eq)

section \<open>Properties of stopping a recording\<close>

lemma stopRecording_recognizes:
  assumes "IsRecording (recorder a)" "\<not> processing a"
    and "\<not> time_Since (now env) (recordingStart a) < MinRecordingDuration"
    and "Current (speechFactory a) = Some rec"
  shows "stopRecording env a =
           (fst (recognize env (a\<lparr>processing := True, recorder := fst (snd (Stop (recorder a)))\<rparr>)
                   rec (fst (Stop (recorder a)))),
            WaveformSetState StateSpeechProcess # map Audio (snd (snd (Stop (recorder a))))
            @ [TraySetState StateProcessing, NotifierProcessing]
            @ snd (recognize env (a\<lparr>processing := True, recorder := fst (snd (Stop (recorder a)))\<rparr>)
                   rec (fst (Stop (recorder a)))))"
proof -
  from assms(1) have "fst (Stop (recorder a)) \<noteq> []"
    by (simp add: IsRecording_def Stop_not_nil)
  with assms show ?thesis
    by (cases "Stop (recorder a)") (simp add: stopRecording_def Let_def split_beta)
qed

lemma transcribe_in_recognize:
  "recognize env a rec0 smpls = (a', effs) \<Longrightarrow> CallsTranscribe rec s l \<in> set effs
     \<Longrightarrow> s = smpls \<and> rec = rec0"
  by (auto simp: recognize_def Let_def split: sum.splits option.splits if_splits prod.splits)

lemma transcribe_in_stopRecording:
  "CallsTranscribe rec s l \<in> set (snd (stopRecording env a)) \<Longrightarrow> s = fst (Stop (recorder a))"
  by (auto simp: stopRecording_def Let_def split: if_splits prod.splits option.splits
           dest: transcribe_in_recognize)

lemmas stopRecording_eval =
  stopRecording_def recognize_def Stop_def IsRecording_def Current_def Let_def
  time_Since_def MinRecordingDuration_def Millisecond_def Second_def MinSamples_def
  SampleRate_def

text \<open>
  C4.  When a recording is stopped with fewer than \<open>MinSamples\<close> (3200) captured
  samples, \<open>Stop\<close> returns them followed by zero samples up to \<open>MinSamples\<close>;
  whatever was captured, the returned buffer has at least \<open>MinSamples\<close> samples; and
  the buffer that \<open>stopRecording\<close> hands to \<open>Transcribe\<close> is the one \<open>Stop\<close>
  returned.
\<close>

theorem Stop_pads_short_recordings:
  "IsRecording (recorder a) \<Longrightarrow>
     (length (samples (recorder a)) < MinSamples \<longrightarrow>
        fst (Stop (recorder a))
          = samples (recorder a) @ replicate (MinSamples - length (samples (recorder a))) 0)
   \<and> MinSamples \<le> length (fst (Stop (recorder a)))
   \<and> MinSamples = 3200
   \<and> (\<forall>rec s l. CallsTranscribe rec s l \<in> set (snd (stopRecording env a))
         \<longrightarrow> s = fst (Stop (recorder a)))"
  using transcribe_in_stopRecording [of _ _ _ env a]
  by (auto simp: IsRecording_def Stop_def Let_def MinSamples_def SampleRate_def)

theorem Stop_pads_short_recordings_witness:
  "IsRecording (recorder app_recording)
   \<and> length (samples (recorder app_recording)) < MinSamples
   \<and> fst (Stop (recorder app_recording)) = [5, 7, 9] @ replicate 3197 0
   \<and> MinSamples \<le> length (fst (Stop (recorder app_recording)))
   \<and> CallsTranscribe (WhisperRecognizer 11) ([5, 7, 9] @ replicate 3197 0) ''ru''
       \<in> set (snd (stopRecording env_silence app_recording))"
  using Stop_pads_short_recordings [of app_recording env_silence]
  by (simp add: app_recording_def recorder_short_eq env_silence_def stopRecording_eval)

text \<open>
  C3.  When the time since the start of the recording is below
  \<open>MinRecordingDuration\<close> (500 ms), \<open>stopRecording\<close> does not call \<open>Transcribe\<close>.
  If a recording was running and no operation was in progress, it stops the recorder,
  hides the window, sets the tray to idle, reports no error and leaves the
  \<open>processing\<close> guard released.
\<close>

theorem short_recording_is_dropped:
  "time_Since (now env) (recordingStart a) < MinRecordingDuration \<Longrightarrow>
     \<not> list_ex isTranscribe (snd (stopRecording env a))
   \<and> (IsRecording (recorder a) \<and> \<not> processing a \<longrightarrow>
        snd (stopRecording env a)
          = WaveformSetState StateSpeechProcess # map Audio (snd (snd (Stop (recorder a))))
            @ [WaveformHide, TraySetState StateIdle]
      \<and> \<not> processing (fst (stopRecording env a))
      \<and> \<not> IsRecording (recorder (fst (stopRecording env a)))
      \<and> \<not> list_ex isError (snd (stopRecording env a)))"
  by (auto simp: stopRecording_def Let_def list_ex_iff IsRecording_def Stop_def
           split: prod.splits option.splits)

theorem short_recording_is_dropped_witness:
  "time_Since (now env_quick) (recordingStart app_recording) = 100 * Millisecond
   \<and> time_Since (now env_quick) (recordingStart app_recording) < MinRecordingDuration
   \<and> IsRecording (recorder app_recording) \<and> \<not> processing app_recording
   \<and> snd (stopRecording env_quick app_recording)
       = [WaveformSetState StateSpeechProcess, Audio (StreamStopped 7), Audio (StreamClosed 7),
          WaveformHide, TraySetState StateIdle]
   \<and> \<not> processing (fst (stopRecording env_quick app_recording))"
  using short_recording_is_dropped [of env_quick app_recording]
  by (simp add: app_recording_def recorder_short_eq env_quick_def stopRecording_eval)

text \<open>
  C8.  When a recording of sufficient length is stopped and \<open>Transcribe\<close> returns the
  empty text, the session calls \<open>notifier.Empty\<close>, hides the window and sets the tray
  to idle: it reports no error, does not call \<open>CorrectText\<close>, and ends with the
  \<open>processing\<close> guard released and the recorder stopped.
\<close>

theorem empty_transcription:
  assumes "IsRecording (recorder a)" "\<not> processing a"
    and "\<not> time_Since (now env) (recordingStart a) < MinRecordingDuration"
    and "Current (speechFactory a) = Some rec"
    and "Transcribe env rec (fst (Stop (recorder a))) (language (config a)) = Inr []"
  shows "snd (stopRecording env a)
           = WaveformSetState StateSpeechProcess # map Audio (snd (snd (Stop (recorder a))))
             @ [TraySetState StateProcessing, NotifierProcessing,
                CallsTranscribe rec (fst (Stop (recorder a))) (language (config a)),
                NotifierEmpty, WaveformHide, TraySetState StateIdle]
       \<and> \<not> list_ex isCorrectText (snd (stopRecording env a))
       \<and> \<not> list_ex isError (snd (stopRecording env a))
       \<and> \<not> processing (fst (stopRecording env a))
       \<and> \<not> IsRecording (recorder (fst (stopRecording env a)))"
proof -
  have r: "recognize env (a\<lparr>processing := True, recorder := fst (snd (Stop (recorder a)))\<rparr>)
             rec (fst (Stop (recorder a)))
           = (a\<lparr>processing := False, recorder := fst (snd (Stop (recorder a)))\<rparr>,
              [CallsTranscribe rec (fst (Stop (recorder a))) (language (config a)),
               NotifierEmpty, WaveformHide, TraySetState StateIdle])"
    using assms(5) by (simp add: recognize_def Let_def)
  have "\<not> running (fst (snd (Stop (recorder a))))"
    by (simp add: Stop_def Let_def)
  then show ?thesis
    by (simp add: stopRecording_recognizes [OF assms(1-4)] r list_ex_iff image_iff IsRecording_def)
qed

theorem empty_transcription_witness:
  "IsRecording (recorder app_recording) \<and> \<not> processing app_recording
   \<and> \<not> time_Since (now env_silence) (recordingStart app_recording) < MinRecordingDuration
   \<and> Current (speechFactory app_recording) = Some (WhisperRecognizer 11)
   \<and> Transcribe env_silence (WhisperRecognizer 11) (fst (Stop (recorder app_recording)))
       (language (config app_recording)) = Inr []
   \<and> snd (stopRecording env_silence app_recording)
       = [WaveformSetState StateSpeechProcess, Audio (StreamStopped 7), Audio (StreamClosed 7),
          TraySetState StateProcessing, NotifierProcessing,
          CallsTranscribe (WhisperRecognizer 11) ([5, 7, 9] @ replicate 3197 0) ''ru'',
          NotifierEmpty, WaveformHide, TraySetState StateIdle]
   \<and> \<not> processing (fst (stopRecording env_silence app_recording))"
  using empty_transcription [of app_recording env_silence "WhisperRecognizer 11"]
  by (simp add: app_recording_def recorder_short_eq env_silence_def stopRecording_eval)

section \<open>Properties of the correction stage\<close>

lemma CorrectText_failing:
  assumes "c t \<noteq> None \<or> (\<exists>e t'. Generate llm m (promptFor text) 256 t = (Inl e, t'))"
  shows "fst (CorrectText llm c m text t) = (text, None) \<and> TrimSpace text = []
       \<or> (\<exists>err. fst (CorrectText llm c m text t) = (text, Some err)) \<and> TrimSpace text \<noteq> []"
  using assms by (auto simp: CorrectText_def Let_def split: option.splits sum.splits prod.splits)

lemma TrimSpace_helo: "TrimSpace ''helo wrld'' = ''helo wrld''"
  by code_simp

lemma TrimSpace_hello: "TrimSpace ''hello world'' = ''hello world''"
  by code_simp

lemma TrimSpace_hello_only: "TrimSpace ''hello'' = ''hello''"
  by code_simp

lemma Index_hello: "Index ''hello world'' ''<|im_end|>'' = - 1"
  by (simp add: Index_def)

lemma Index_hello_only: "Index ''hello'' ''<|im_end|>'' = - 1"
  by (simp add: Index_def)

subsection \<open>The generation in the example worlds\<close>

lemma generateLoop_round:
  "0 < k \<Longrightarrow>
     generateLoop llm m k held nCur result t =
       (if llama_vocab_is_eog llm (llama_sampler_sample llm held) then (result, t)
        else if fst (llama_decode llm held [llama_sampler_sample llm held]) \<noteq> 0
        then (result @ tokenToPiece llm (llama_sampler_sample llm held),
              t + snd (llama_decode llm held [llama_sampler_sample llm held]))
        else if nCur + 1 \<ge> nCtx m
        then (result @ tokenToPiece llm (llama_sampler_sample llm held),
              t + snd (llama_decode llm held [llama_sampler_sample llm held]))
        else generateLoop llm m (k - 1) (held @ [llama_sampler_sample llm held]) (nCur + 1)
               (result @ tokenToPiece llm (llama_sampler_sample llm held))
               (t + snd (llama_decode llm held [llama_sampler_sample llm held])))"
  by (cases k) (simp_all add: Let_def split_beta)

lemma length_systemPrompt: "length systemPrompt = 269"
  by (simp add: systemPrompt_def)

lemma promptFor_shape:
  "promptFor text \<noteq> []" "last (promptFor text) = CHR 0x0A"
  "length (promptFor text) = length text + 349"
  by (simp_all add: promptFor_def length_systemPrompt)

lemma tokenize_slow: "tokenize llama_slow p = Inr (map of_char p)"
  by (simp add: tokenize_def llama_slow_def)

lemma pieces_slow:
  "tokenToPiece llama_slow 300 = ''hello''" "tokenToPiece llama_slow 301 = '' world''"
  by (simp_all add: tokenToPiece_def llama_slow_def)

lemma Generate_slow:
  assumes "p \<noteq> []" "last p = CHR 0x0A" "length p < 2000"
  shows "Generate llama_slow llm_loaded p 256 t = (Inr ''hello world'', t + 45 * Second)"
proof -
  have s: "llama_sampler_sample llama_slow (map of_char p) = 300"
    "llama_sampler_sample llama_slow (map of_char p @ [300]) = 301"
    "llama_sampler_sample llama_slow (map of_char p @ [300, 301]) = 302"
    using assms(1,2) by (simp_all add: llama_slow_def last_map)
  have d: "\<And>held batch. held \<noteq> [] \<Longrightarrow> llama_decode llama_slow held batch = (0, 20 * Second)"
    "\<And>batch. llama_decode llama_slow [] batch = (0, 5 * Second)"
    "\<And>token. llama_vocab_is_eog llama_slow token = (token = 302)"
    by (simp_all add: llama_slow_def)
  have "generateLoop llama_slow llm_loaded 256 (map of_char p) (int (length p)) [] (t + 5 * Second)
          = (''hello world'', t + 45 * Second)"
    using assms(1,3)
    by (simp add: generateLoop_round s d pieces_slow llm_loaded_def Second_def Millisecond_def)
  then show ?thesis
    using assms(1) by (simp add: Generate_def tokenize_slow d llm_loaded_def)
qed

lemma Generate_failing:
  "p \<noteq> [] \<Longrightarrow> Generate llama_failing llm_loaded p 256 t = (Inl DecodePromptFailed, t + 2 * Second)"
  by (simp add: Generate_def tokenize_def llama_failing_def llama_slow_def llm_loaded_def)

lemma Generate_breaking:
  assumes "p \<noteq> []" "last p = CHR 0x0A" "length p < 2000"
  shows "Generate llama_breaking llm_loaded p 256 t = (Inr ''hello'', t + 4 * Second)"
proof -
  have "generateLoop llama_breaking llm_loaded 256 (map of_char p) (int (length p)) [] (t + 2 * Second)
          = (''hello'', t + 4 * Second)"
    using assms
    by (simp add: generateLoop_round llama_breaking_def llama_slow_def tokenToPiece_def last_map
          Second_def Millisecond_def)
  then show ?thesis
    using assms(1)
    by (simp add: Generate_def tokenize_def llama_breaking_def llama_slow_def llm_loaded_def)
qed

subsection \<open>Failures that are met before the generation\<close>

text \<open>
  For every text, \<open>CorrectText\<close> returns the text it was given whenever the context
  is done at the instant \<open>CorrectText\<close> looks at it, which it does once, before
  generating, or \<open>Generate\<close> returns an error.  And when that happens in a session
  whose transcription gave a text that is not empty, the session reports no error: it
  publishes the transcription through \<open>SetResult\<close> (with no corrected text, unless
  the transcription was white space only, which \<open>CorrectText\<close> gives back without an
  error), sets the tray to idle and releases the \<open>processing\<close> guard.
\<close>

lemma correction_failure_falls_back:
  "(c t \<noteq> None \<or> (\<exists>e t'. Generate llm m (promptFor text) 256 t = (Inl e, t'))
      \<longrightarrow> fst (fst (CorrectText llm c m text t)) = text)
   \<and> (IsRecording (recorder a) \<and> \<not> processing a
      \<and> \<not> time_Since (now env) (recordingStart a) < MinRecordingDuration
      \<and> Current (speechFactory a) = Some rec
      \<and> Transcribe env rec (fst (Stop (recorder a))) (language (config a)) = Inr original
      \<and> original \<noteq> []
      \<and> llmEnabled (config a) \<and> llmModel a = Some m'
      \<and> (WithTimeout (ctx_made env) (30 * Second) (ctx_checked env) \<noteq> None
         \<or> (\<exists>e t'. Generate (llama env) m' (promptFor original) 256 (ctx_checked env) = (Inl e, t')))
      \<longrightarrow> snd (stopRecording env a)
            = WaveformSetState StateSpeechProcess # map Audio (snd (snd (Stop (recorder a))))
              @ [TraySetState StateProcessing, NotifierProcessing,
                 CallsTranscribe rec (fst (Stop (recorder a))) (language (config a)),
                 WaveformSetState StateLLMProcess,
                 CallsCorrectText m' original,
                 WaveformSetResult original (if TrimSpace original = [] then original else []),
                 TraySetState StateIdle]
          \<and> \<not> list_ex isError (snd (stopRecording env a))
          \<and> \<not> processing (fst (stopRecording env a)))"
proof (intro conjI impI)
  assume "c t \<noteq> None \<or> (\<exists>e t'. Generate llm m (promptFor text) 256 t = (Inl e, t'))"
  then show "fst (fst (CorrectText llm c m text t)) = text"
    using CorrectText_failing [of c t llm m "text"] by auto
next
  assume h: "IsRecording (recorder a) \<and> \<not> processing a
      \<and> \<not> time_Since (now env) (recordingStart a) < MinRecordingDuration
      \<and> Current (speechFactory a) = Some rec
      \<and> Transcribe env rec (fst (Stop (recorder a))) (language (config a)) = Inr original
      \<and> original \<noteq> []
      \<and> llmEnabled (config a) \<and> llmModel a = Some m'
      \<and> (WithTimeout (ctx_made env) (30 * Second) (ctx_checked env) \<noteq> None
         \<or> (\<exists>e t'. Generate (llama env) m' (promptFor original) 256 (ctx_checked env) = (Inl e, t')))"
  then have s: "stopRecording env a =
           (fst (recognize env (a\<lparr>processing := True, recorder := fst (snd (Stop (recorder a)))\<rparr>)
                   rec (fst (Stop (recorder a)))),
            WaveformSetState StateSpeechProcess # map Audio (snd (snd (Stop (recorder a))))
            @ [TraySetState StateProcessing, NotifierProcessing]
            @ snd (recognize env (a\<lparr>processing := True, recorder := fst (snd (Stop (recorder a)))\<rparr>)
                   rec (fst (Stop (recorder a)))))"
    by (intro stopRecording_recognizes) simp_all
  from h have "WithTimeout (ctx_made env) (30 * Second) (ctx_checked env) \<noteq> None
         \<or> (\<exists>e t'. Generate (llama env) m' (promptFor original) 256 (ctx_checked env) = (Inl e, t'))"
    by simp
  with h CorrectText_failing [of "WithTimeout (ctx_made env) (30 * Second)" "ctx_checked env"
                                 "llama env" m' original]
  have r: "recognize env (a\<lparr>processing := True, recorder := fst (snd (Stop (recorder a)))\<rparr>)
             rec (fst (Stop (recorder a)))
           = (a\<lparr>processing := False, recorder := fst (snd (Stop (recorder a)))\<rparr>,
              [CallsTranscribe rec (fst (Stop (recorder a))) (language (config a)),
               WaveformSetState StateLLMProcess,
               CallsCorrectText m' original,
               WaveformSetResult original (if TrimSpace original = [] then original else []),
               TraySetState StateIdle])"
    by (auto simp: recognize_def Let_def)
  show "snd (stopRecording env a)
            = WaveformSetState StateSpeechProcess # map Audio (snd (snd (Stop (recorder a))))
              @ [TraySetState StateProcessing, NotifierProcessing,
                 CallsTranscribe rec (fst (Stop (recorder a))) (language (config a)),
                 WaveformSetState StateLLMProcess,
                 CallsCorrectText m' original,
                 WaveformSetResult original (if TrimSpace original = [] then original else []),
                 TraySetState StateIdle]"
    by (simp add: s r)
  show "\<not> list_ex isError (snd (stopRecording env a))"
    by (simp add: s r list_ex_iff image_iff)
  show "\<not> processing (fst (stopRecording env a))"
    by (simp add: s r)
qed

lemma correction_failure_falls_back_example:
  "WithTimeout 0 (30 * Second) (31 * Second) = Some DeadlineExceeded
   \<and> CorrectText llama_slow (WithTimeout 0 (30 * Second)) llm_loaded ''helo wrld'' (31 * Second)
       = ((''helo wrld'', Some DeadlineExceeded), 31 * Second)
   \<and> IsRecording (recorder app_recording) \<and> \<not> processing app_recording
   \<and> \<not> time_Since (now env_failing) (recordingStart app_recording) < MinRecordingDuration
   \<and> Transcribe env_failing (WhisperRecognizer 11) (fst (Stop (recorder app_recording)))
       (language (config app_recording)) = Inr ''helo wrld''
   \<and> llmEnabled (config app_recording)
   \<and> Generate (llama env_failing) llm_loaded (promptFor ''helo wrld'') 256 (ctx_checked env_failing)
       = (Inl DecodePromptFailed, 7 * Second)
   \<and> snd (stopRecording env_failing app_recording)
       = [WaveformSetState StateSpeechProcess, Audio (StreamStopped 7), Audio (StreamClosed 7),
          TraySetState StateProcessing, NotifierProcessing,
          CallsTranscribe (WhisperRecognizer 11) ([5, 7, 9] @ replicate 3197 0) ''ru'',
          WaveformSetState StateLLMProcess,
          CallsCorrectText llm_loaded ''helo wrld'',
          WaveformSetResult ''helo wrld'' [], TraySetState StateIdle]
   \<and> \<not> processing (fst (stopRecording env_failing app_recording))"
  using correction_failure_falls_back
    [of "WithTimeout 0 (30 * Second)" "31 * Second" llama_slow llm_loaded "''helo wrld''"
        app_recording env_failing "WhisperRecognizer 11" "''helo wrld''" llm_loaded]
  by (simp add: app_recording_def recorder_short_eq env_failing_def stopRecording_eval
        CorrectText_def Generate_failing promptFor_shape TrimSpace_helo WithTimeout_def
        hears_helo_def)

subsection \<open>Failures that are met during the generation\<close>

text \<open>
  C5.  A deadline that passes while \<open>Generate\<close> runs does not make \<open>CorrectText\<close>
  return the text it was given.  Once the context has passed the one check,
  \<open>CorrectText\<close> does not depend on it: it returns what it returns under a context
  that is never done.  So do the sessions: when the
  context with the timeout of 30 seconds is not done at the check, the text that a
  correction with no deadline gives is published as the corrected text, whenever that
  correction returns.
\<close>

theorem deadline_is_not_observed:
  "(c t = None \<longrightarrow> CorrectText llm c m text t = CorrectText llm (\<lambda>t'. None) m text t)
   \<and> (IsRecording (recorder a) \<and> \<not> processing a
      \<and> \<not> time_Since (now env) (recordingStart a) < MinRecordingDuration
      \<and> Current (speechFactory a) = Some rec
      \<and> Transcribe env rec (fst (Stop (recorder a))) (language (config a)) = Inr original
      \<and> original \<noteq> []
      \<and> llmEnabled (config a) \<and> llmModel a = Some m'
      \<and> WithTimeout (ctx_made env) (30 * Second) (ctx_checked env) = None
      \<and> fst (CorrectText (llama env) (\<lambda>t'. None) m' original (ctx_checked env)) = (corrected, None)
      \<and> corrected \<noteq> []
      \<longrightarrow> snd (stopRecording env a)
            = WaveformSetState StateSpeechProcess # map Audio (snd (snd (Stop (recorder a))))
              @ [TraySetState StateProcessing, NotifierProcessing,
                 CallsTranscribe rec (fst (Stop (recorder a))) (language (config a)),
                 WaveformSetState StateLLMProcess,
                 CallsCorrectText m' original,
                 WaveformSetResult original corrected,
                 TraySetState StateIdle])"
proof (intro conjI impI)
  assume "c t = None"
  then show "CorrectText llm c m text t = CorrectText llm (\<lambda>t'. None) m text t"
    by (simp add: CorrectText_def)
next
  assume h: "IsRecording (recorder a) \<and> \<not> processing a
      \<and> \<not> time_Since (now env) (recordingStart a) < MinRecordingDuration
      \<and> Current (speechFactory a) = Some rec
      \<and> Transcribe env rec (fst (Stop (recorder a))) (language (config a)) = Inr original
      \<and> original \<noteq> []
      \<and> llmEnabled (config a) \<and> llmModel a = Some m'
      \<and> WithTimeout (ctx_made env) (30 * Second) (ctx_checked env) = None
      \<and> fst (CorrectText (llama env) (\<lambda>t'. None) m' original (ctx_checked env)) = (corrected, None)
      \<and> corrected \<noteq> []"
  then have s: "stopRecording env a =
           (fst (recognize env (a\<lparr>processing := True, recorder := fst (snd (Stop (recorder a)))\<rparr>)
                   rec (fst (Stop (recorder a)))),
            WaveformSetState StateSpeechProcess # map Audio (snd (snd (Stop (recorder a))))
            @ [TraySetState StateProcessing, NotifierProcessing]
            @ snd (recognize env (a\<lparr>processing := True, recorder := fst (snd (Stop (recorder a)))\<rparr>)
                   rec (fst (Stop (recorder a)))))"
    by (intro stopRecording_recognizes) simp_all
  from h have "CorrectText (llama env) (WithTimeout (ctx_made env) (30 * Second)) m' original
                 (ctx_checked env)
               = CorrectText (llama env) (\<lambda>t'. None) m' original (ctx_checked env)"
    by (simp add: CorrectText_def)
  with h have r: "snd (recognize env (a\<lparr>processing := True, recorder := fst (snd (Stop (recorder a)))\<rparr>)
             rec (fst (Stop (recorder a))))
           = [CallsTranscribe rec (fst (Stop (recorder a))) (language (config a)),
              WaveformSetState StateLLMProcess,
              CallsCorrectText m' original,
              WaveformSetResult original corrected,
              TraySetState StateIdle]"
    by (simp add: recognize_def Let_def)
  show "snd (stopRecording env a)
            = WaveformSetState StateSpeechProcess # map Audio (snd (snd (Stop (recorder a))))
              @ [TraySetState StateProcessing, NotifierProcessing,
                 CallsTranscribe rec (fst (Stop (recorder a))) (language (config a)),
                 WaveformSetState StateLLMProcess,
                 CallsCorrectText m' original,
                 WaveformSetResult original corrected,
                 TraySetState StateIdle]"
    by (simp add: s r)
qed

text \<open>
  The context is made at 5 seconds with a timeout of 30 seconds and is not done when
  \<open>CorrectText\<close> looks at it, at 5 seconds; llama.cpp takes 5 seconds to decode the
  prompt and 20 seconds for each of two tokens; when \<open>CorrectText\<close> returns, at 50
  seconds, the deadline has been exceeded for 15 seconds, and the text returned is the
  generated one, with no error, not the original.  The session publishes the overdue
  correction as the corrected text.
\<close>

theorem correction_overruns_deadline:
  "WithTimeout (ctx_made env_slow) (30 * Second) (ctx_checked env_slow) = None
   \<and> CorrectText (llama env_slow) (WithTimeout (ctx_made env_slow) (30 * Second)) llm_loaded
         ''helo wrld'' (ctx_checked env_slow)
       = ((''hello world'', None), 50 * Second)
   \<and> WithTimeout (ctx_made env_slow) (30 * Second) (50 * Second) = Some DeadlineExceeded
   \<and> IsRecording (recorder app_recording) \<and> \<not> processing app_recording
   \<and> \<not> time_Since (now env_slow) (recordingStart app_recording) < MinRecordingDuration
   \<and> Transcribe env_slow (WhisperRecognizer 11) (fst (Stop (recorder app_recording)))
       (language (config app_recording)) = Inr ''helo wrld''
   \<and> llmEnabled (config app_recording) \<and> llmModel app_recording = Some llm_loaded
   \<and> snd (stopRecording env_slow app_recording)
       = [WaveformSetState StateSpeechProcess, Audio (StreamStopped 7), Audio (StreamClosed 7),
          TraySetState StateProcessing, NotifierProcessing,
          CallsTranscribe (WhisperRecognizer 11) ([5, 7, 9] @ replicate 3197 0) ''ru'',
          WaveformSetState StateLLMProcess,
          CallsCorrectText llm_loaded ''helo wrld'',
          WaveformSetResult ''helo wrld'' ''hello world'', TraySetState StateIdle]"
  using deadline_is_not_observed
    [of "WithTimeout (ctx_made env_slow) (30 * Second)" "ctx_checked env_slow" "llama env_slow"
        llm_loaded "''helo wrld''" app_recording env_slow "WhisperRecognizer 11" "''helo wrld''"
        llm_loaded "''hello world''"]
  by (simp add: CorrectText_def Generate_slow promptFor_shape TrimSpace_helo TrimSpace_hello
        Index_hello WithTimeout_def app_recording_def recorder_short_eq
        env_slow_def hears_helo_def stopRecording_eval)

text \<open>
  Once the prompt has been decoded, \<open>Generate\<close> returns no error: a \<open>llama_decode\<close>
  that fails in the loop ends the loop, and what has been generated is the result.
\<close>

lemma Generate_after_the_prompt:
  assumes "model m \<noteq> None" "ctx m \<noteq> None"
    and "tokenize llm prompt = Inr tokens" "tokens \<noteq> []"
    and "fst (llama_decode llm [] tokens) = 0"
  shows "\<exists>result t'. Generate llm m prompt maxTokens t = (Inr result, t')"
  using assms by (auto simp: Generate_def Let_def split_beta)

text \<open>
  So a generation that fails after the prompt is not a failure for \<open>CorrectText\<close>.
  The prompt is decoded, the first token drawn is \<open>hello\<close>, and the
  \<open>llama_decode\<close> of that token fails: \<open>Generate\<close> returns \<open>hello\<close> with no error,
  \<open>CorrectText\<close> returns it instead of the text it was given, and the session
  publishes it as the corrected text of \<open>helo wrld\<close>.
\<close>

theorem partial_generation_is_published:
  "llama_sampler_sample llama_breaking (map of_char (promptFor ''helo wrld'')) = 300
   \<and> tokenToPiece llama_breaking 300 = ''hello''
   \<and> fst (llama_decode llama_breaking (map of_char (promptFor ''helo wrld'')) [300]) \<noteq> 0
   \<and> Generate llama_breaking llm_loaded (promptFor ''helo wrld'') 256 (5 * Second)
       = (Inr ''hello'', 9 * Second)
   \<and> CorrectText llama_breaking (WithTimeout (5 * Second) (30 * Second)) llm_loaded ''helo wrld''
       (5 * Second)
       = ((''hello'', None), 9 * Second)
   \<and> snd (stopRecording env_breaking app_recording)
       = [WaveformSetState StateSpeechProcess, Audio (StreamStopped 7), Audio (StreamClosed 7),
          TraySetState StateProcessing, NotifierProcessing,
          CallsTranscribe (WhisperRecognizer 11) ([5, 7, 9] @ replicate 3197 0) ''ru'',
          WaveformSetState StateLLMProcess,
          CallsCorrectText llm_loaded ''helo wrld'',
          WaveformSetResult ''helo wrld'' ''hello'', TraySetState StateIdle]"
proof -
  have "llama_sampler_sample llama_breaking (map of_char (promptFor ''helo wrld'')) = 300"
    "tokenToPiece llama_breaking 300 = ''hello''"
    "fst (llama_decode llama_breaking (map of_char (promptFor ''helo wrld'')) [300]) \<noteq> 0"
    by (simp_all add: llama_breaking_def llama_slow_def tokenToPiece_def promptFor_shape last_map)
  then show ?thesis
    by (simp add: CorrectText_def Generate_breaking promptFor_shape TrimSpace_helo
          TrimSpace_hello_only Index_hello_only WithTimeout_def app_recording_def
          recorder_short_eq env_breaking_def hears_helo_def stopRecording_eval)
qed

section \<open>The registry and the example file systems\<close>

lemma GetModel_base: "GetModel ''whisper-base'' = Some whisper_base"
  by (simp add: GetModel_def Registry_def whisper_base_def)

lemma GetModel_unknown: "GetModel ''whisper-huge'' = None"
  by (simp add: GetModel_def Registry_def)

lemma whisper_base_path:
  "GetModelPath mgr whisper_base = models_dir @ [''whisper'', ''ggml-base.bin'']"
  by (simp add: GetModelPath_def whisper_base_def Registry_def elem_def mgr_def)

lemma whisper_base_fields:
  "Engine whisper_base = EngineWhisper" "Name whisper_base = ''Base''" "\<not> IsZip whisper_base"
  by (simp_all add: whisper_base_def Registry_def)

lemma IsDownloaded_base_fresh: "\<not> IsDownloaded mgr fs_fresh whisper_base"
  by (simp add: IsDownloaded_def whisper_base_path models_dir_def fs_fresh_def os_Stat_def
       lookup_def)

lemma IsDownloaded_base: "IsDownloaded mgr fs_with_base whisper_base"
  by (simp add: IsDownloaded_def whisper_base_path whisper_base_fields models_dir_def
       fs_fresh_def os_Stat_def lookup_def fs_with_base_def store_def)

section \<open>Properties of a download\<close>

lemmas fs_eval =
  lookup_def store_def erase_def os_Create_def file_Write_def os_Remove_def os_Rename_def
  os_Stat_def hasChildren_def tmpPathOf_def

lemma Download_8:
  "Download mgr world_8 fs_fresh whisper_base True
     = \<lparr>returned = Returns None,
        files = store fs_fresh (models_dir @ [''whisper'', ''ggml-base.bin''])
                  (File [103, 103, 109, 108, 1, 0, 0, 0]),
        sent = [\<lparr>ModelID = ''whisper-base'', Downloaded = 4, Total = 8, Done = False, Error = None\<rparr>,
                \<lparr>ModelID = ''whisper-base'', Downloaded = 8, Total = 8, Done = False, Error = None\<rparr>,
                \<lparr>ModelID = ''whisper-base'', Downloaded = 8, Total = 8, Done = True, Error = None\<rparr>],
        fetched = [hf_whisper @ ''ggml-base.bin'']\<rparr>"
  apply (simp add: Download_def IsDownloaded_base_fresh whisper_base_fields downloadFile_def
     downloadFile_body_def whisper_base_path)
  apply (simp add: world_8_def ok_8_def totalOf_def Let_def fs_eval fs_fresh_def models_dir_def
      wrap64_def EOF_def doneProgress_def deferRemove_def)
  apply (simp add: whisper_base_def Registry_def)
  done

lemma whisper_base_size: "ModelInfo.Size whisper_base = 148897792" "ID whisper_base = ''whisper-base''"
  by (simp_all add: whisper_base_def Registry_def)

lemma world_8_facts:
  "received (passes world_8) = 8" "announced world_8 whisper_base = 8"
  by (simp_all add: received_def announced_def world_8_def ok_8_def totalOf_def)

text \<open>
  C6.  When the model is already downloaded, \<open>Download\<close> returns \<open>nil\<close>, fetches
  nothing over the network and leaves the file system as it is; if there is a progress
  channel it receives one value, with \<open>Done\<close> set and \<open>Downloaded\<close> equal to
  \<open>Total\<close>; and a second call, whatever the network is like then, does the same.
\<close>

theorem Download_is_idempotent:
  "IsDownloaded m fs info \<Longrightarrow>
     Download m w fs info sink
       = \<lparr>returned = Returns None, files = fs,
          sent = (if sink then [\<lparr>ModelID = ID info, Downloaded = ModelInfo.Size info,
                                  Total = ModelInfo.Size info, Done = True, Error = None\<rparr>]
                  else []),
          fetched = []\<rparr>
   \<and> Download m w' (files (Download m w fs info sink)) info sink'
       = \<lparr>returned = Returns None, files = fs,
          sent = (if sink' then [\<lparr>ModelID = ID info, Downloaded = ModelInfo.Size info,
                                   Total = ModelInfo.Size info, Done = True, Error = None\<rparr>]
                  else []),
          fetched = []\<rparr>"
  by (simp add: Download_def)

theorem Download_is_idempotent_witness:
  "IsDownloaded mgr fs_with_base whisper_base
   \<and> Download mgr world_8 fs_with_base whisper_base True
       = \<lparr>returned = Returns None, files = fs_with_base,
          sent = [\<lparr>ModelID = ''whisper-base'', Downloaded = 148897792, Total = 148897792,
                   Done = True, Error = None\<rparr>],
          fetched = []\<rparr>
   \<and> Download mgr world_offline (files (Download mgr world_8 fs_with_base whisper_base True))
        whisper_base True
       = \<lparr>returned = Returns None, files = fs_with_base,
          sent = [\<lparr>ModelID = ''whisper-base'', Downloaded = 148897792, Total = 148897792,
                   Done = True, Error = None\<rparr>],
          fetched = []\<rparr>"
proof -
  note h = Download_is_idempotent [where m = mgr and fs = fs_with_base and info = whisper_base
      and w = world_8 and sink = True and w' = world_offline and sink' = True,
      OF IsDownloaded_base]
  from h [THEN conjunct1] have a: "Download mgr world_8 fs_with_base whisper_base True
       = \<lparr>returned = Returns None, files = fs_with_base,
          sent = [\<lparr>ModelID = ''whisper-base'', Downloaded = 148897792, Total = 148897792,
                   Done = True, Error = None\<rparr>],
          fetched = []\<rparr>"
    by (simp add: whisper_base_size)
  from h [THEN conjunct2] have b: "Download mgr world_offline (files (Download mgr world_8 fs_with_base whisper_base True))
        whisper_base True
       = \<lparr>returned = Returns None, files = fs_with_base,
          sent = [\<lparr>ModelID = ''whisper-base'', Downloaded = 148897792, Total = 148897792,
                   Done = True, Error = None\<rparr>],
          fetched = []\<rparr>"
    by (simp add: whisper_base_size)
  show ?thesis using IsDownloaded_base a b by blast
qed

subsection \<open>Progress values\<close>

lemma wrap64_id: "- (2 ^ 63) \<le> x \<Longrightarrow> x < 2 ^ 63 \<Longrightarrow> wrap64 x = x"
  by (simp add: wrap64_def)

lemma received_Cons: "received (p # ps) = int (length (chunk p)) + received ps"
  by (simp add: received_def)

lemma received_nonneg: "0 \<le> received ps"
  by (simp add: received_def)

lemma copyLoop_progress:
  assumes "copyLoop info sink tot tmp ps d0 fs = (e, fs', out)"
    and "0 \<le> d0" and "d0 + received ps < 2 ^ 63"
  shows "sorted (map Downloaded out)
       \<and> (\<forall>p \<in> set out. d0 < Downloaded p \<and> Downloaded p \<le> d0 + received ps \<and> \<not> Done p)"
  using assms
proof (induction ps arbitrary: d0 fs e fs' out)
  case Nil
  then show ?case by simp
next
  case (Cons p ps)
  let ?n = "int (length (chunk p))"
  have bound: "d0 + ?n + received ps < 2 ^ 63"
    using Cons.prems(3) by (simp add: received_Cons)
  have w: "wrap64 (d0 + ?n) = d0 + ?n"
    using Cons.prems(2) bound received_nonneg [of ps] by (intro wrap64_id) auto
  show ?case
  proof (cases "ctx_err p = None \<and> \<not> (chunk p \<noteq> [] \<and> write_err p \<noteq> None) \<and> read_err p = None")
    case False
    with Cons.prems w received_nonneg [of ps] show ?thesis
      by (auto simp: received_Cons Let_def split: option.splits if_splits)
  next
    case True
    obtain e2 fs2 out2 where rec:
      "copyLoop info sink tot tmp ps (if chunk p \<noteq> [] then d0 + ?n else d0)
         (if chunk p \<noteq> [] then file_Write fs tmp (chunk p) else fs) = (e2, fs2, out2)"
      by (metis prod_cases3)
    have d1: "(if chunk p \<noteq> [] then d0 + ?n else d0) = d0 + ?n" by simp
    from rec have rec': "copyLoop info sink tot tmp ps (d0 + ?n)
         (if chunk p \<noteq> [] then file_Write fs tmp (chunk p) else fs) = (e2, fs2, out2)"
      by (simp only: d1)
    have ih: "sorted (map Downloaded out2)
       \<and> (\<forall>q \<in> set out2. d0 + ?n < Downloaded q \<and> Downloaded q \<le> d0 + ?n + received ps \<and> \<not> Done q)"
      using Cons.IH [OF rec'] Cons.prems(2) bound by simp
    from Cons.prems(1) True rec w
    have out: "out = (if chunk p \<noteq> [] \<and> sink \<and> sink_ready p
                      then [\<lparr>ModelID = ID info, Downloaded = d0 + ?n, Total = tot,
                             Done = False, Error = None\<rparr>] else []) @ out2"
      by (auto simp: Let_def split: if_splits)
    show ?thesis
      using ih received_nonneg [of ps]
      by (auto simp: out received_Cons sorted_append)
  qed
qed

lemma sent_deferRemove: "sent (deferRemove tmp d) = sent d"
  by (simp add: deferRemove_def split: call.splits)

lemma downloadFile_sent:
  "sent (downloadFile m w fs info sink) = []
   \<or> (\<exists>tmp fs1.
         sent (downloadFile m w fs info sink) = loop_out info sink w tmp fs1
         \<or> sent (downloadFile m w fs info sink)
             = loop_out info sink w tmp fs1 @ doneProgress info sink (announced w info))"
proof (cases "NewRequest w (URL info)")
  case (Some err)
  then show ?thesis
    by (simp add: downloadFile_def downloadFile_body_def sent_deferRemove Let_def)
next
  case None
  show ?thesis
  proof (cases "Do w (URL info)")
    case (Inl err)
    with None show ?thesis
      by (simp add: downloadFile_def downloadFile_body_def sent_deferRemove Let_def)
  next
    case (Inr resp)
    show ?thesis
    proof (cases "StatusCode resp \<noteq> 200")
      case True
      with None Inr show ?thesis
        by (simp add: downloadFile_def downloadFile_body_def sent_deferRemove Let_def)
    next
      case False
      show ?thesis
      proof (cases "os_Create fs (tmpPathOf (GetModelPath m info))")
        case (Inl err)
        with None Inr False show ?thesis
          by (simp add: downloadFile_def downloadFile_body_def sent_deferRemove Let_def)
      next
        case fs1: (Inr fs1)
        have "sent (downloadFile m w fs info sink)
                = loop_out info sink w (tmpPathOf (GetModelPath m info)) fs1
            \<or> sent (downloadFile m w fs info sink)
                = loop_out info sink w (tmpPathOf (GetModelPath m info)) fs1
                  @ doneProgress info sink (announced w info)"
          using None Inr False fs1
          by (simp add: downloadFile_def downloadFile_body_def sent_deferRemove Let_def
                loop_out_def announced_def
              split: prod.splits loop_end.splits option.splits)
        then show ?thesis by blast
      qed
    qed
  qed
qed

lemma downloadAndUnzip_sent:
  "sent (downloadAndUnzip m w fs info sink) = []
   \<or> (\<exists>tmp fs1.
         sent (downloadAndUnzip m w fs info sink) = loop_out info sink w tmp fs1
         \<or> sent (downloadAndUnzip m w fs info sink)
             = loop_out info sink w tmp fs1 @ doneProgress info sink (announced w info))"
proof (cases "os_CreateTemp w fs")
  case (Inl err)
  then show ?thesis by (simp add: downloadAndUnzip_def)
next
  case (Inr tf)
  obtain tmp fs1 where tf: "tf = (tmp, fs1)" by (cases tf)
  show ?thesis
  proof (cases "NewRequest w (URL info)")
    case (Some err)
    with Inr tf show ?thesis
      by (simp add: downloadAndUnzip_def downloadAndUnzip_body_def sent_deferRemove Let_def)
  next
    case None
    show ?thesis
    proof (cases "Do w (URL info)")
      case (Inl err)
      with None Inr tf show ?thesis
        by (simp add: downloadAndUnzip_def downloadAndUnzip_body_def sent_deferRemove Let_def)
    next
      case resp: (Inr resp)
      show ?thesis
      proof (cases "StatusCode resp \<noteq> 200")
        case True
        with None Inr tf resp show ?thesis
          by (simp add: downloadAndUnzip_def downloadAndUnzip_body_def sent_deferRemove Let_def)
      next
        case False
        have "sent (downloadAndUnzip m w fs info sink) = loop_out info sink w tmp fs1
            \<or> sent (downloadAndUnzip m w fs info sink)
                = loop_out info sink w tmp fs1 @ doneProgress info sink (announced w info)"
          using None Inr tf resp False
          by (simp add: downloadAndUnzip_def downloadAndUnzip_body_def sent_deferRemove Let_def
                loop_out_def announced_def
              split: prod.splits loop_end.splits option.splits)
        then show ?thesis by blast
      qed
    qed
  qed
qed

lemma loop_out_sorted:
  assumes "received (passes w) < 2 ^ 63"
  shows "sorted (map Downloaded (filter (\<lambda>p. \<not> Done p) (loop_out info sink w tmp fs1)))"
    and "sorted (map Downloaded (filter (\<lambda>p. \<not> Done p)
           (loop_out info sink w tmp fs1 @ doneProgress info sink (announced w info))))"
    and "sorted (map Downloaded (loop_out info sink w tmp fs1))"
    and "received (passes w) \<le> announced w info \<Longrightarrow>
         sorted (map Downloaded
           (loop_out info sink w tmp fs1 @ doneProgress info sink (announced w info)))"
proof -
  obtain e fs' out where
    c: "copyLoop info sink (announced w info) tmp (passes w) 0 fs1 = (e, fs', out)"
    by (metis prod_cases3)
  then have o: "loop_out info sink w tmp fs1 = out" by (simp add: loop_out_def)
  from copyLoop_progress [OF c] assms
  have a: "sorted (map Downloaded out)"
    and b: "\<forall>p \<in> set out. 0 < Downloaded p \<and> Downloaded p \<le> received (passes w) \<and> \<not> Done p"
    by simp_all
  from b have f: "filter (\<lambda>p. \<not> Done p) out = out"
    by (simp add: filter_id_conv)
  show "sorted (map Downloaded (filter (\<lambda>p. \<not> Done p) (loop_out info sink w tmp fs1)))"
    using a f o by simp
  show "sorted (map Downloaded (filter (\<lambda>p. \<not> Done p)
           (loop_out info sink w tmp fs1 @ doneProgress info sink (announced w info))))"
    using a f o by (simp add: doneProgress_def)
  show "sorted (map Downloaded (loop_out info sink w tmp fs1))" using a o by simp
  show "sorted (map Downloaded
           (loop_out info sink w tmp fs1 @ doneProgress info sink (announced w info)))"
    if "received (passes w) \<le> announced w info"
    using a b that unfolding o by (fastforce simp: doneProgress_def sorted_append)
qed

text \<open>
  C9, as amended.  In a download of fewer than \<open>2 ^ 63\<close> bytes, the values of
  \<open>Downloaded\<close> in the progress values sent during the transfer are non-decreasing;
  and with the completion value, which carries the total and not the number of bytes
  received, the whole sequence is non-decreasing when the bytes received do not exceed
  the total that the download announces (the \<open>Content-Length\<close> of the response, or
  the size in the registry when the response has none).
\<close>

theorem progress_is_monotone:
  "received (passes w) < 2 ^ 63 \<Longrightarrow>
     sorted (map Downloaded (filter (\<lambda>p. \<not> Done p) (sent (Download m w fs info sink))))
   \<and> (received (passes w) \<le> announced w info \<longrightarrow>
        sorted (map Downloaded (sent (Download m w fs info sink))))"
proof -
  assume r: "received (passes w) < 2 ^ 63"
  show ?thesis
  proof (cases "IsDownloaded m fs info")
    case True
    then show ?thesis by (simp add: Download_def)
  next
    case False
    let ?d = "if IsZip info then downloadAndUnzip m w fs info sink else downloadFile m w fs info sink"
    have D: "Download m w fs info sink = ?d" using False by (simp add: Download_def)
    have "sent ?d = []
      \<or> (\<exists>tmp fs1. sent ?d = loop_out info sink w tmp fs1
            \<or> sent ?d = loop_out info sink w tmp fs1 @ doneProgress info sink (announced w info))"
      using downloadFile_sent [of m w fs info sink] downloadAndUnzip_sent [of m w fs info sink]
      by (cases "IsZip info") simp_all
    then show ?thesis
    proof (elim disjE exE)
      assume "sent ?d = []"
      then show ?thesis by (simp only: D) simp
    next
      fix tmp fs1
      assume "sent ?d = loop_out info sink w tmp fs1"
      then show ?thesis
        using loop_out_sorted [OF r, of info sink tmp fs1] by (simp only: D) simp
    next
      fix tmp fs1
      assume "sent ?d = loop_out info sink w tmp fs1 @ doneProgress info sink (announced w info)"
      then show ?thesis
        using loop_out_sorted [OF r, of info sink tmp fs1] by (simp only: D) simp
    qed
  qed
qed

theorem progress_is_monotone_witness:
  "received (passes world_8) = 8 \<and> received (passes world_8) < 2 ^ 63
   \<and> announced world_8 whisper_base = 8
   \<and> map Downloaded (sent (Download mgr world_8 fs_fresh whisper_base True)) = [4, 8, 8]
   \<and> sorted (map Downloaded (sent (Download mgr world_8 fs_fresh whisper_base True)))"
  using progress_is_monotone [where w = world_8 and info = whisper_base and m = mgr and fs = fs_fresh
      and sink = True]
  by (simp add: Download_8 world_8_facts)

lemma map_of_put: "map_of (put p n xs) q = (if q = p then Some n else map_of xs q)"
  by (induction xs) auto

lemma lookup_store: "p \<noteq> [] \<Longrightarrow> lookup (store fs p n) q = (if q = p then Some n else lookup fs q)"
  by (simp add: lookup_def store_def map_of_put)

lemma lookup_file_Write:
  assumes "lookup fs p = Some (File old)"
  shows "lookup (file_Write fs p bs) q = (if q = p then Some (File (old @ bs)) else lookup fs q)"
proof -
  from assms have "p \<noteq> []" by (auto simp: lookup_def)
  with assms show ?thesis by (simp add: file_Write_def lookup_store)
qed

lemma lookup_writes:
  "lookup fs p = Some (File old) \<Longrightarrow>
     lookup (writes k p c fs) q
       = (if q = p then Some (File (old @ concat (replicate k c))) else lookup fs q)"
proof (induction k arbitrary: fs old)
  case 0
  then show ?case by simp
next
  case (Suc k)
  have "lookup (file_Write fs p c) p = Some (File (old @ c))"
    using Suc.prems by (simp add: lookup_file_Write)
  from Suc.IH [OF this] Suc.prems show ?case
    by (simp add: lookup_file_Write)
qed

lemma copyLoop_replicate:
  assumes "ctx_err p = None" "write_err p = None" "read_err p = None" "\<not> sink_ready p"
    and "chunk p \<noteq> []" "0 \<le> d" "d + int k * int (length (chunk p)) < 2 ^ 63"
  shows "copyLoop info sink tot tmp (replicate k p @ rest) d fs
       = copyLoop info sink tot tmp rest (d + int k * int (length (chunk p)))
           (writes k tmp (chunk p) fs)"
  using assms(6,7)
proof (induction k arbitrary: d fs)
  case 0
  then show ?case by simp
next
  case (Suc k)
  let ?n = "int (length (chunk p))"
  have b: "d + ?n + int k * ?n < 2 ^ 63"
    using Suc.prems(2) by (simp add: algebra_simps)
  have "0 \<le> int k * ?n" by simp
  with b have "d + ?n < 2 ^ 63" by linarith
  then have w: "wrap64 (d + ?n) = d + ?n"
    using Suc.prems(1) by (intro wrap64_id) auto
  have "copyLoop info sink tot tmp (replicate k p @ rest) (d + ?n) (file_Write fs tmp (chunk p))
       = copyLoop info sink tot tmp rest (d + ?n + int k * ?n)
           (writes k tmp (chunk p) (file_Write fs tmp (chunk p)))"
    using Suc.prems(1) b by (intro Suc.IH) auto
  then show ?case
    using assms(1-5) w by (simp add: Let_def algebra_simps split: prod.splits)
qed

lemma tiny_fields:
  "Engine whisper_tiny_q5 = EngineWhisper" "\<not> IsZip whisper_tiny_q5"
  "ModelInfo.Size whisper_tiny_q5 = 33554432" "ID whisper_tiny_q5 = ''whisper-tiny-q5''"
  "GetModelPath mgr whisper_tiny_q5 = models_dir @ [''whisper'', ''ggml-tiny-q5_1.bin'']"
  by (simp_all add: whisper_tiny_q5_def Registry_def GetModelPath_def elem_def mgr_def)

lemma IsDownloaded_tiny_fresh: "\<not> IsDownloaded mgr fs_fresh whisper_tiny_q5"
  by (simp add: IsDownloaded_def tiny_fields models_dir_def fs_fresh_def os_Stat_def lookup_def)

text \<open>
  C9 as stated fails for a response with no \<open>Content-Length\<close> that is longer than
  the size in the registry.  The model \<open>whisper-tiny-q5\<close> is registered with 33554432
  bytes; the server sends 33554433 bytes in chunked encoding; the last value sent from
  the loop says 33554433, and the completion value after it says 33554432.
\<close>

theorem final_update_goes_back:
  "sent (Download mgr world_chunked fs_fresh whisper_tiny_q5 True)
     = [\<lparr>ModelID = ''whisper-tiny-q5'', Downloaded = 33554433, Total = 33554432,
         Done = False, Error = None\<rparr>,
        \<lparr>ModelID = ''whisper-tiny-q5'', Downloaded = 33554432, Total = 33554432,
         Done = True, Error = None\<rparr>]
   \<and> \<not> sorted (map Downloaded (sent (Download mgr world_chunked fs_fresh whisper_tiny_q5 True)))"
proof -
  let ?dest = "models_dir @ [''whisper'', ''ggml-tiny-q5_1.bin'']"
  let ?tmp = "models_dir @ [''whisper'', ''ggml-tiny-q5_1.bin.tmp'']"
  let ?fs1 = "store fs_fresh ?tmp (File [])"
  let ?fs2 = "writes 1024 ?tmp (chunk pass_32k) ?fs1"
  have tmp: "tmpPathOf ?dest = ?tmp" by (simp add: tmpPathOf_def models_dir_def)
  have net: "NewRequest world_chunked (URL whisper_tiny_q5) = None"
    "Do world_chunked (URL whisper_tiny_q5) = Inr chunked"
    "StatusCode chunked = 200" "ContentLength chunked = - 1"
    by (simp_all add: world_chunked_def chunked_def)
  have cr: "os_Create fs_fresh ?tmp = Inr ?fs1"
    by (simp add: os_Create_def lookup_def fs_fresh_def models_dir_def)
  have l1: "lookup ?fs1 ?tmp = Some (File [])"
    by (simp add: lookup_store models_dir_def)
  have l2: "lookup ?fs2 q = (if q = ?tmp then Some (File (concat (replicate 1024 (chunk pass_32k))))
                             else lookup ?fs1 q)" for q
    using lookup_writes [OF l1, where c = "chunk pass_32k" and k = 1024 and q = q] by simp
  have loop: "copyLoop whisper_tiny_q5 True 33554432 ?tmp (passes world_chunked) 0 ?fs1
        = (LoopBreak, file_Write ?fs2 ?tmp [0],
           [\<lparr>ModelID = ''whisper-tiny-q5'', Downloaded = 33554433, Total = 33554432,
             Done = False, Error = None\<rparr>])"
    using copyLoop_replicate [of pass_32k 0 1024 whisper_tiny_q5 True 33554432 ?tmp "[pass_tail]" ?fs1]
    by (simp add: world_chunked_def pass_32k_def pass_tail_def wrap64_def tiny_fields)
  have l3: "lookup (file_Write ?fs2 ?tmp [0]) q
             = (if q = ?tmp then Some (File (concat (replicate 1024 (chunk pass_32k)) @ [0]))
                else lookup ?fs1 q)" for q
    using lookup_file_Write [where fs = ?fs2 and p = ?tmp and bs = "[0]" and q = q] l2 by simp
  have "fst (os_Rename (file_Write ?fs2 ?tmp [0]) ?tmp ?dest) = None"
    by (simp add: os_Rename_def l3 lookup_store)
       (simp add: lookup_def fs_fresh_def models_dir_def)
  then obtain fs3 where rn: "os_Rename (file_Write ?fs2 ?tmp [0]) ?tmp ?dest = (None, fs3)"
    by (cases "os_Rename (file_Write ?fs2 ?tmp [0]) ?tmp ?dest") simp
  have s: "sent (Download mgr world_chunked fs_fresh whisper_tiny_q5 True)
     = [\<lparr>ModelID = ''whisper-tiny-q5'', Downloaded = 33554433, Total = 33554432,
         Done = False, Error = None\<rparr>,
        \<lparr>ModelID = ''whisper-tiny-q5'', Downloaded = 33554432, Total = 33554432,
         Done = True, Error = None\<rparr>]"
    by (simp add: Download_def IsDownloaded_tiny_fresh tiny_fields downloadFile_def
          downloadFile_body_def sent_deferRemove tmp cr net Let_def totalOf_def loop rn
          doneProgress_def)
  show ?thesis by (simp add: s)
qed

subsection \<open>A download that fails before extraction\<close>

lemma map_of_erase: "map_of (filter (\<lambda>e. fst e \<noteq> p) xs) q = (if q = p then None else map_of xs q)"
  by (induction xs) auto

lemma lookup_erase: "p \<noteq> [] \<Longrightarrow> lookup (erase fs p) q = (if q = p then None else lookup fs q)"
  by (simp add: lookup_def erase_def map_of_erase)

lemma dirSize_kept [simp]:
  "dirSize (store fs p n) = dirSize fs" "dirSize (erase fs p) = dirSize fs"
  "dirSize (file_Write fs p bs) = dirSize fs" "dirSize (os_Remove fs p) = dirSize fs"
  by (simp_all add: store_def erase_def file_Write_def os_Remove_def
        split: option.splits node.splits)

lemma lookup_root: "lookup fs [] = Some Dir"
  by (simp add: lookup_def)

lemma lookup_file_Write_other: "q \<noteq> p \<Longrightarrow> lookup (file_Write fs p bs) q = lookup fs q"
  by (cases "p = []")
     (auto simp: file_Write_def lookup_store lookup_root split: option.splits node.splits)

lemma file_Write_keeps_file:
  "lookup fs p = Some (File b) \<Longrightarrow> \<exists>b'. lookup (file_Write fs p bs) p = Some (File b')"
  by (simp add: lookup_file_Write)

lemma os_Remove_other: "q \<noteq> p \<Longrightarrow> lookup (os_Remove fs p) q = lookup fs q"
  by (cases "p = []")
     (auto simp: os_Remove_def lookup_erase lookup_root split: option.splits node.splits)

lemma os_Remove_file: "lookup fs p = Some (File b) \<Longrightarrow> lookup (os_Remove fs p) p = None"
  by (cases "p = []") (auto simp: os_Remove_def lookup_erase lookup_root)

lemma os_Create_other:
  "os_Create fs p = Inr fs1 \<Longrightarrow>
     dirSize fs1 = dirSize fs \<and> lookup fs1 p = Some (File []) \<and> (\<forall>q. q \<noteq> p \<longrightarrow> lookup fs1 q = lookup fs q)"
  by (auto simp: os_Create_def lookup_store split: if_splits)

lemma os_Rename_failed: "os_Rename fs a b = (Some e, fs') \<Longrightarrow> fs' = fs"
  by (auto simp: os_Rename_def split: option.splits node.splits if_splits)

lemma tmpPathOf_differs: "tmpPathOf d \<noteq> d"
proof (cases "d = []")
  case True
  then show ?thesis by (simp add: tmpPathOf_def)
next
  case False
  then have "d = butlast d @ [last d]" by simp
  moreover have "last d @ ''.tmp'' \<noteq> last d" by simp
  ultimately show ?thesis
    using False by (metis append1_eq_conv tmpPathOf_def)
qed

lemma copyLoop_elsewhere:
  "copyLoop info sink tot tmp ps d fs = (e, fs', out) \<Longrightarrow>
     dirSize fs' = dirSize fs
     \<and> (\<forall>q. q \<noteq> tmp \<longrightarrow> lookup fs' q = lookup fs q)
     \<and> (\<forall>b. lookup fs tmp = Some (File b) \<longrightarrow> (\<exists>b'. lookup fs' tmp = Some (File b')))"
proof (induction ps arbitrary: d fs e fs' out)
  case Nil
  then show ?case by simp
next
  case (Cons p ps)
  show ?case
  proof (cases "ctx_err p = None \<and> (chunk p = [] \<or> write_err p = None) \<and> read_err p = None")
    case False
    with Cons.prems show ?thesis
      by (auto simp: Let_def lookup_file_Write_other lookup_file_Write
               split: option.splits if_splits)
  next
    case True
    let ?fs1 = "if chunk p \<noteq> [] then file_Write fs tmp (chunk p) else fs"
    let ?d1 = "if chunk p \<noteq> [] then wrap64 (d + int (length (chunk p))) else d"
    obtain e2 fs2 out2 where r: "copyLoop info sink tot tmp ps ?d1 ?fs1 = (e2, fs2, out2)"
      by (metis prod_cases3)
    with Cons.prems True have "fs' = fs2"
      by (auto simp: Let_def split: if_splits)
    moreover have "dirSize ?fs1 = dirSize fs" by simp
    moreover have "\<forall>q. q \<noteq> tmp \<longrightarrow> lookup ?fs1 q = lookup fs q"
      by (simp add: lookup_file_Write_other)
    moreover have "\<forall>b. lookup fs tmp = Some (File b) \<longrightarrow> (\<exists>b'. lookup ?fs1 tmp = Some (File b'))"
      using file_Write_keeps_file [of fs tmp _ "chunk p"] by auto
    ultimately show ?thesis
      using Cons.IH [OF r] by (metis (no_types, lifting))
  qed
qed

lemma IsDownloaded_same:
  assumes "lookup fs' (GetModelPath m info) = lookup fs (GetModelPath m info)"
    and "dirSize fs' = dirSize fs"
  shows "IsDownloaded m fs' info = IsDownloaded m fs info"
proof -
  have "os_Stat fs' (GetModelPath m info) = os_Stat fs (GetModelPath m info)"
    unfolding os_Stat_def assms ..
  then show ?thesis by (simp add: IsDownloaded_def)
qed


lemma downloadFile_body_files:
  assumes "returned (downloadFile_body m w fs info sink) = Returns (Some err)"
    and "os_Create fs (tmpPathOf (GetModelPath m info)) = Inr fs1"
    and "copyLoop info sink (announced w info) (tmpPathOf (GetModelPath m info)) (passes w) 0 fs1
           = (e, fs2, out)"
  shows "files (downloadFile_body m w fs info sink) = fs
       \<or> files (downloadFile_body m w fs info sink) = fs2"
proof (cases "NewRequest w (URL info)")
  case (Some x)
  then show ?thesis by (simp add: downloadFile_body_def Let_def)
next
  case None
  show ?thesis
  proof (cases "Do w (URL info)")
    case (Inl x)
    with None show ?thesis by (simp add: downloadFile_body_def Let_def)
  next
    case (Inr resp)
    show ?thesis
    proof (cases "StatusCode resp \<noteq> 200")
      case True
      with None Inr show ?thesis by (simp add: downloadFile_body_def Let_def)
    next
      case False
      from Inr have t: "totalOf resp info = announced w info" by (simp add: announced_def)
      show ?thesis
      proof (cases e)
        case LoopBreak
        obtain r fs3 where rn: "os_Rename fs2 (tmpPathOf (GetModelPath m info)) (GetModelPath m info) = (r, fs3)"
          by (cases "os_Rename fs2 (tmpPathOf (GetModelPath m info)) (GetModelPath m info)")
        show ?thesis
        proof (cases r)
          case None': None
          with assms None Inr False t LoopBreak rn show ?thesis
            by (simp add: downloadFile_body_def Let_def)
        next
          case (Some x)
          with rn have "fs3 = fs2" by (simp add: os_Rename_failed)
          with assms None Inr False t LoopBreak rn Some show ?thesis
            by (simp add: downloadFile_body_def Let_def)
        qed
      next
        case (LoopReturn x)
        with assms None Inr False t show ?thesis
          by (simp add: downloadFile_body_def Let_def)
      next
        case LoopBlocked
        with assms None Inr False t show ?thesis
          by (simp add: downloadFile_body_def Let_def)
      qed
    qed
  qed
qed


lemma downloadFile_failed:
  assumes "returned (downloadFile m w fs info sink) = Returns (Some err)"
  shows "lookup (files (downloadFile m w fs info sink)) (GetModelPath m info)
           = lookup fs (GetModelPath m info)
       \<and> dirSize (files (downloadFile m w fs info sink)) = dirSize fs"
proof -
  let ?dest = "GetModelPath m info"
  let ?tmp = "tmpPathOf ?dest"
  let ?b = "downloadFile_body m w fs info sink"
  have ne: "?dest \<noteq> ?tmp" using tmpPathOf_differs [of ?dest] by simp
  from assms have rb: "returned ?b = Returns (Some err)"
    by (simp add: downloadFile_def deferRemove_def split: call.splits)
  then have f: "files (downloadFile m w fs info sink) = os_Remove (files ?b) ?tmp"
    by (simp add: downloadFile_def deferRemove_def)
  have "lookup (files ?b) ?dest = lookup fs ?dest \<and> dirSize (files ?b) = dirSize fs"
  proof (cases "os_Create fs ?tmp")
    case (Inl e)
    then show ?thesis
      by (simp add: downloadFile_body_def Let_def split: option.splits sum.splits)
  next
    case (Inr fs1)
    obtain e fs2 out where
      c: "copyLoop info sink (announced w info) ?tmp (passes w) 0 fs1 = (e, fs2, out)"
      by (metis prod_cases3)
    from os_Create_other [OF Inr] copyLoop_elsewhere [OF c] ne
    have k: "lookup fs2 ?dest = lookup fs ?dest \<and> dirSize fs2 = dirSize fs" by simp
    from downloadFile_body_files [OF rb Inr c] k show ?thesis by auto
  qed
  with f ne show ?thesis by (simp add: os_Remove_other)
qed


lemma downloadAndUnzip_body_files:
  assumes "returned (downloadAndUnzip_body m w fs1 tmp info sink) = Returns (Some err)"
    and "\<forall>e. err \<noteq> UnzipFailed e"
    and "copyLoop info sink (announced w info) tmp (passes w) 0 fs1 = (e, fs2, out)"
  shows "files (downloadAndUnzip_body m w fs1 tmp info sink) = fs1
       \<or> files (downloadAndUnzip_body m w fs1 tmp info sink) = fs2"
proof (cases "NewRequest w (URL info)")
  case (Some x)
  then show ?thesis by (simp add: downloadAndUnzip_body_def Let_def)
next
  case None
  show ?thesis
  proof (cases "Do w (URL info)")
    case (Inl x)
    with None show ?thesis by (simp add: downloadAndUnzip_body_def Let_def)
  next
    case (Inr resp)
    show ?thesis
    proof (cases "StatusCode resp \<noteq> 200")
      case True
      with None Inr show ?thesis by (simp add: downloadAndUnzip_body_def Let_def)
    next
      case False
      from Inr have t: "totalOf resp info = announced w info" by (simp add: announced_def)
      show ?thesis
      proof (cases e)
        case LoopBreak
        obtain r fs3 where uz: "unzip w fs2 tmp (butlast (GetModelPath m info)) = (r, fs3)"
          by (cases "unzip w fs2 tmp (butlast (GetModelPath m info))")
        with assms None Inr False t LoopBreak show ?thesis
          by (cases r) (auto simp: downloadAndUnzip_body_def Let_def)
      next
        case (LoopReturn x)
        with assms None Inr False t show ?thesis
          by (simp add: downloadAndUnzip_body_def Let_def)
      next
        case LoopBlocked
        with assms None Inr False t show ?thesis
          by (simp add: downloadAndUnzip_body_def Let_def)
      qed
    qed
  qed
qed


lemma downloadAndUnzip_failed:
  assumes "returned (downloadAndUnzip m w fs info sink) = Returns (Some err)"
    and "\<forall>e. err \<noteq> UnzipFailed e"
  shows "lookup (files (downloadAndUnzip m w fs info sink)) q = lookup fs q
       \<and> dirSize (files (downloadAndUnzip m w fs info sink)) = dirSize fs"
proof (cases "os_CreateTemp w fs")
  case (Inl e)
  then show ?thesis by (simp add: downloadAndUnzip_def)
next
  case (Inr tf)
  obtain tmp fs1 where tf: "tf = (tmp, fs1)" by (cases tf)
  let ?b = "downloadAndUnzip_body m w fs1 tmp info sink"
  from Inr tf have absent: "lookup fs tmp = None" and cr: "os_Create fs tmp = Inr fs1"
    by (auto simp: os_CreateTemp_def Let_def split: sum.splits if_splits)
  from assms(1) Inr tf have rb: "returned ?b = Returns (Some err)"
    by (simp add: downloadAndUnzip_def deferRemove_def split: call.splits)
  with Inr tf have f: "files (downloadAndUnzip m w fs info sink) = os_Remove (files ?b) tmp"
    by (simp add: downloadAndUnzip_def deferRemove_def)
  obtain e fs2 out where
    c: "copyLoop info sink (announced w info) tmp (passes w) 0 fs1 = (e, fs2, out)"
    by (metis prod_cases3)
  from os_Create_other [OF cr]
  have k1: "dirSize fs1 = dirSize fs" "lookup fs1 tmp = Some (File [])"
    "\<And>q. q \<noteq> tmp \<Longrightarrow> lookup fs1 q = lookup fs q"
    by auto
  from copyLoop_elsewhere [OF c] k1
  have k2: "dirSize fs2 = dirSize fs" "\<exists>b. lookup fs2 tmp = Some (File b)"
    "\<And>q. q \<noteq> tmp \<Longrightarrow> lookup fs2 q = lookup fs q"
    by auto
  from downloadAndUnzip_body_files [OF rb assms(2) c]
  show ?thesis
  proof
    assume "files ?b = fs1"
    with f k1 absent show ?thesis
      by (cases "q = tmp") (auto simp: os_Remove_other os_Remove_file)
  next
    assume "files ?b = fs2"
    with f k2 absent show ?thesis
      by (cases "q = tmp") (auto simp: os_Remove_other os_Remove_file)
  qed
qed


text \<open>
  A download that returns an error other than the error of \<open>unzip\<close> leaves the path
  of the model as it was, and so leaves the model not downloaded: \<open>downloadFile\<close>
  works on a temporary file beside the model and renames it at the end only, and
  \<open>downloadAndUnzip\<close> has touched nothing but its temporary archive before it calls
  \<open>unzip\<close>.
\<close>

lemma failure_before_extraction:
  assumes "\<not> IsDownloaded m fs info"
    and "returned (Download m w fs info sink) = Returns (Some err)"
    and "\<not> IsZip info \<or> (\<forall>e. err \<noteq> UnzipFailed e)"
  shows "\<not> IsDownloaded m (files (Download m w fs info sink)) info
       \<and> lookup (files (Download m w fs info sink)) (GetModelPath m info)
           = lookup fs (GetModelPath m info)"
proof -
  have k: "lookup (files (Download m w fs info sink)) (GetModelPath m info)
             = lookup fs (GetModelPath m info)
         \<and> dirSize (files (Download m w fs info sink)) = dirSize fs"
  proof (cases "IsZip info")
    case True
    with assms have r: "returned (downloadAndUnzip m w fs info sink) = Returns (Some err)"
      and n: "\<forall>e. err \<noteq> UnzipFailed e"
      by (simp_all add: Download_def)
    from downloadAndUnzip_failed [OF r n, of "GetModelPath m info"] assms(1) True
    show ?thesis by (simp add: Download_def)
  next
    case False
    with assms have "returned (downloadFile m w fs info sink) = Returns (Some err)"
      by (simp add: Download_def)
    from downloadFile_failed [OF this] assms(1) False
    show ?thesis by (simp add: Download_def)
  qed
  then have "IsDownloaded m (files (Download m w fs info sink)) info = IsDownloaded m fs info"
    by (intro IsDownloaded_same) simp_all
  with assms(1) k show ?thesis by simp
qed

text \<open>
  A response with an empty body: \<open>Download\<close> returns \<open>nil\<close> with an empty file in
  place, which \<open>IsDownloaded\<close> does not count.
\<close>

lemma empty_body_is_not_downloaded:
  "returned (Download mgr world_empty fs_fresh whisper_base True) = Returns None
   \<and> lookup (files (Download mgr world_empty fs_fresh whisper_base True))
        (GetModelPath mgr whisper_base) = Some (File [])
   \<and> \<not> IsDownloaded mgr (files (Download mgr world_empty fs_fresh whisper_base True)) whisper_base"
proof -
  have d: "Download mgr world_empty fs_fresh whisper_base True
     = \<lparr>returned = Returns None,
        files = store fs_fresh (models_dir @ [''whisper'', ''ggml-base.bin'']) (File []),
        sent = [\<lparr>ModelID = ''whisper-base'', Downloaded = 148897792, Total = 148897792,
                 Done = True, Error = None\<rparr>],
        fetched = [URL whisper_base]\<rparr>"
    by (simp add: Download_def IsDownloaded_base_fresh whisper_base_fields downloadFile_def
          downloadFile_body_def whisper_base_path)
       (simp add: world_empty_def ok_empty_def totalOf_def Let_def fs_eval fs_fresh_def
          models_dir_def EOF_def doneProgress_def deferRemove_def whisper_base_size)
  show ?thesis
    unfolding d
    by (simp add: IsDownloaded_def whisper_base_path whisper_base_fields os_Stat_def
          lookup_def store_def fs_fresh_def models_dir_def)
qed

subsection \<open>A failed extraction\<close>

lemma vosk_fields:
  "Engine vosk_ru_small = EngineVosk" "IsZip vosk_ru_small"
  "ModelInfo.Size vosk_ru_small = 47185920" "ID vosk_ru_small = ''vosk-ru-small''"
  "GetModelPath mgr vosk_ru_small = models_dir @ [''vosk'', ''vosk-model-small-ru-0.22'']"
  by (simp_all add: vosk_ru_small_def Registry_def GetModelPath_def elem_def mgr_def
        EngineVosk_def EngineWhisper_def)

lemma IsDownloaded_vosk_fresh: "\<not> IsDownloaded mgr fs_fresh vosk_ru_small"
  by (simp add: IsDownloaded_def vosk_fields models_dir_def fs_fresh_def os_Stat_def lookup_def)

lemma CreateTemp_damaged: "os_CreateTemp world_damaged fs_fresh
   = Inr ([''tmp'', ''model-123.zip''], store fs_fresh [''tmp'', ''model-123.zip''] (File []))"
  by (simp add: os_CreateTemp_def world_damaged_def os_Create_def lookup_def fs_fresh_def models_dir_def store_def Let_def)

lemma length_damaged_body: "length damaged_body = 459"
  by (simp add: damaged_body_def)

lemma copyLoop_damaged: "copyLoop vosk_ru_small True 459 [''tmp'', ''model-123.zip''] (passes world_damaged) 0
    (store fs_fresh [''tmp'', ''model-123.zip''] (File []))
   = (LoopBreak, fs_zip, [\<lparr>ModelID = ''vosk-ru-small'', Downloaded = 459, Total = 459, Done = False,
                 Error = None\<rparr>])"
  by (simp add: world_damaged_def EOF_def wrap64_def vosk_fields file_Write_def lookup_def
       store_def fs_fresh_def models_dir_def fs_zip_def length_damaged_body)

lemma nodes_zip: "nodes fs_zip = nodes fs_fresh @ [([''tmp'', ''model-123.zip''], File damaged_body)]"
  by (simp add: fs_zip_def store_def fs_fresh_def models_dir_def)

lemma MkdirAll_model: "os_MkdirAll fs_zip (models_dir @ [''vosk'', ''vosk-model-small-ru-0.22'']) = (None, fs_a)"
  by (simp add: fs_a_def lookup_def nodes_zip fs_fresh_def models_dir_def)

lemma nodes_a: "nodes fs_a = nodes fs_zip @ [(models_dir @ [''vosk'', ''vosk-model-small-ru-0.22''], Dir)]"
  by (simp add: fs_a_def store_def nodes_zip fs_fresh_def models_dir_def)

lemma MkdirAll_am: "os_MkdirAll fs_a (models_dir @ [''vosk'', ''vosk-model-small-ru-0.22'', ''am'']) = (None, fs_b)"
  by (simp add: fs_b_def lookup_def nodes_a nodes_zip fs_fresh_def models_dir_def)

lemma nodes_b: "nodes fs_b = nodes fs_a @ [(models_dir @ [''vosk'', ''vosk-model-small-ru-0.22'', ''am''], Dir)]"
  by (simp add: fs_b_def store_def nodes_a nodes_zip fs_fresh_def models_dir_def)

lemma Create_final_mdl: "os_Create fs_b (models_dir @ [''vosk'', ''vosk-model-small-ru-0.22'', ''am'', ''final.mdl''])
   = Inr (store fs_b (models_dir @ [''vosk'', ''vosk-model-small-ru-0.22'', ''am'', ''final.mdl'']) (File []))"
  by (simp add: os_Create_def lookup_def nodes_b nodes_a nodes_zip fs_fresh_def models_dir_def)

lemma Write_final_mdl: "file_Write (store fs_b (models_dir @ [''vosk'', ''vosk-model-small-ru-0.22'', ''am'', ''final.mdl'']) (File []))
     (models_dir @ [''vosk'', ''vosk-model-small-ru-0.22'', ''am'', ''final.mdl'']) [1, 2] = fs_c"
  by (simp add: file_Write_def lookup_def store_def fs_c_def nodes_b nodes_a nodes_zip fs_fresh_def models_dir_def)

lemma unzip_entries_damaged: "unzip_entries fs_zip (models_dir @ [''vosk'']) damaged_archive
   = (Some (External ''zip: checksum error''), fs_c)"
  by (simp add: damaged_archive_def Let_def MkdirAll_model MkdirAll_am Create_final_mdl Write_final_mdl butlast_append del: os_MkdirAll.simps)

lemma net_damaged:
  "NewRequest world_damaged u = None" "Do world_damaged u = Inr ok_zip"
  "StatusCode ok_zip = 200" "totalOf ok_zip vosk_ru_small = 459"
  "zip_OpenReader world_damaged damaged_body = Inr damaged_archive"
  by (simp_all add: world_damaged_def ok_zip_def totalOf_def)

lemma lookup_zip: "lookup fs_zip [''tmp'', ''model-123.zip''] = Some (File damaged_body)"
  by (simp add: lookup_def nodes_zip fs_fresh_def models_dir_def)

lemma unzip_damaged:
  "unzip world_damaged fs_zip [''tmp'', ''model-123.zip''] (models_dir @ [''vosk''])
     = (Some (External ''zip: checksum error''), fs_c)"
  by (simp add: unzip_def lookup_zip net_damaged unzip_entries_damaged)

lemma nodes_c:
  "nodes fs_c = nodes fs_b
     @ [(models_dir @ [''vosk'', ''vosk-model-small-ru-0.22'', ''am'', ''final.mdl''], File [1, 2])]"
  by (simp add: fs_c_def store_def nodes_b nodes_a nodes_zip fs_fresh_def models_dir_def)

lemma Download_damaged:
  "Download mgr world_damaged fs_fresh vosk_ru_small True
     = \<lparr>returned = Returns (Some (UnzipFailed (External ''zip: checksum error''))),
        files = os_Remove fs_c [''tmp'', ''model-123.zip''],
        sent = [\<lparr>ModelID = ''vosk-ru-small'', Downloaded = 459, Total = 459, Done = False,
                 Error = None\<rparr>],
        fetched = [URL vosk_ru_small]\<rparr>"
  by (simp add: Download_def IsDownloaded_vosk_fresh vosk_fields downloadAndUnzip_def
        downloadAndUnzip_body_def CreateTemp_damaged net_damaged Let_def copyLoop_damaged butlast_append unzip_damaged
        deferRemove_def)

lemma files_damaged:
  "nodes (os_Remove fs_c [''tmp'', ''model-123.zip''])
     = nodes fs_fresh
       @ [(models_dir @ [''vosk'', ''vosk-model-small-ru-0.22''], Dir),
          (models_dir @ [''vosk'', ''vosk-model-small-ru-0.22'', ''am''], Dir),
          (models_dir @ [''vosk'', ''vosk-model-small-ru-0.22'', ''am'', ''final.mdl''],
           File [1, 2])]"
  by (simp add: os_Remove_def lookup_def erase_def nodes_c nodes_b nodes_a
        nodes_zip fs_fresh_def models_dir_def)

text \<open>
  C1.  The model \<open>vosk-ru-small\<close> is not downloaded; the archive arrives in full,
  its directory entry is unpacked and its second entry fails its checksum.
  \<open>Download\<close> returns the error of \<open>unzip\<close>, and afterwards \<open>IsDownloaded\<close>
  holds: the directory of the model is in place with one file in it, and the third
  entry of the archive is missing.
\<close>

theorem failed_extraction_looks_downloaded:
  "\<not> IsDownloaded mgr fs_fresh vosk_ru_small
   \<and> returned (Download mgr world_damaged fs_fresh vosk_ru_small True)
       = Returns (Some (UnzipFailed (External ''zip: checksum error'')))
   \<and> IsDownloaded mgr (files (Download mgr world_damaged fs_fresh vosk_ru_small True)) vosk_ru_small
   \<and> lookup (files (Download mgr world_damaged fs_fresh vosk_ru_small True))
        (GetModelPath mgr vosk_ru_small @ [''am'', ''final.mdl'']) = Some (File [1, 2])
   \<and> lookup (files (Download mgr world_damaged fs_fresh vosk_ru_small True))
        (GetModelPath mgr vosk_ru_small @ [''conf'', ''model.conf'']) = None"
  unfolding Download_damaged
  by (simp add: IsDownloaded_vosk_fresh IsDownloaded_def vosk_fields os_Stat_def lookup_def
        files_damaged fs_fresh_def models_dir_def)

section \<open>Properties of the factory\<close>

lemma GetModel_vosk: "GetModel ''vosk-ru-small'' = Some vosk_ru_small"
  by (simp add: GetModel_def Registry_def vosk_ru_small_def)

lemma GetModel_llm: "GetModel ''llm-qwen2.5-0.5b'' = Some llm_qwen_05b"
  by (simp add: GetModel_def Registry_def llm_qwen_05b_def)

lemma llm_fields:
  "Engine llm_qwen_05b = EngineLLM" "\<not> IsZip llm_qwen_05b"
  "GetModelPath mgr llm_qwen_05b = models_dir @ [''llm'', ''qwen2.5-0.5b-instruct-q4_k_m.gguf'']"
  "Engine llm_qwen_05b \<noteq> EngineWhisper" "Engine llm_qwen_05b \<noteq> EngineVosk"
  by (simp_all add: llm_qwen_05b_def Registry_def GetModelPath_def elem_def mgr_def
        EngineVosk_def EngineWhisper_def EngineLLM_def)

lemma engines_differ: "EngineLLM \<noteq> EngineWhisper" "EngineLLM \<noteq> EngineVosk"
  by (simp_all add: EngineLLM_def EngineWhisper_def EngineVosk_def)

lemma nodes_with_all:
  "nodes fs_with_all = nodes fs_fresh
     @ [(models_dir @ [''whisper'', ''ggml-base.bin''], File [103, 103, 109, 108]),
        (models_dir @ [''vosk'', ''vosk-model-small-ru-0.22''], Dir),
        (models_dir @ [''llm'', ''qwen2.5-0.5b-instruct-q4_k_m.gguf''], File [71, 71, 85, 70])]"
  by (simp add: fs_with_all_def fs_with_base_def store_def fs_fresh_def models_dir_def)

lemma IsDownloaded_all:
  "IsDownloaded mgr fs_with_all vosk_ru_small" "IsDownloaded mgr fs_with_all llm_qwen_05b"
  by (simp_all add: IsDownloaded_def vosk_fields llm_fields os_Stat_def lookup_def nodes_with_all
        fs_fresh_def models_dir_def)

lemma NewVosk_broken:
  "NewVosk engines_broken fs_with_all (models_dir @ [''vosk'', ''vosk-model-small-ru-0.22''])
     = Inl (VoskModelLoadFailed (External ''failed to load model''))"
  by (simp add: NewVosk_def os_Stat_def lookup_def nodes_with_all
        fs_fresh_def models_dir_def engines_broken_def)

text \<open>
  C2.  When \<open>Create\<close> fails, \<open>Swap\<close> returns that error, closes nothing and
  leaves the factory as it was, so that \<open>Current\<close> and \<open>CurrentModelID\<close> give
  what they gave before; \<open>Swap\<close> returns an error in no other case.  \<open>Create\<close>
  fails when the model id is not in the registry, when the model is not downloaded,
  when the constructor of the engine fails, and when the model's engine is neither
  Whisper nor Vosk.
\<close>

theorem failed_Swap_keeps_current:
  "(Create eng fs f mid = Inl err \<longrightarrow>
      Swap eng fs f mid = (Some err, f, [])
      \<and> Current (fst (snd (Swap eng fs f mid))) = Current f
      \<and> CurrentModelID (fst (snd (Swap eng fs f mid))) = CurrentModelID f)
   \<and> (fst (Swap eng fs f mid) \<noteq> None \<longrightarrow> (\<exists>e. Create eng fs f mid = Inl e))
   \<and> (GetModel mid = None \<longrightarrow> Create eng fs f mid = Inl (ModelNotFound mid))
   \<and> (GetModel mid = Some info \<and> \<not> IsDownloaded (manager f) fs info \<longrightarrow>
        Create eng fs f mid = Inl (ModelNotDownloaded (Name info)))
   \<and> (GetModel mid = Some info \<and> IsDownloaded (manager f) fs info
        \<and> Engine info = EngineWhisper
        \<and> NewWhisperFromFile eng (GetModelPath (manager f) info) = Inl e \<longrightarrow>
        Create eng fs f mid = Inl (CreateRecognizerFailed e))
   \<and> (GetModel mid = Some info \<and> IsDownloaded (manager f) fs info
        \<and> Engine info = EngineVosk
        \<and> NewVosk eng fs (GetModelPath (manager f) info) = Inl e \<longrightarrow>
        Create eng fs f mid = Inl (CreateRecognizerFailed e))
   \<and> (GetModel mid = Some info \<and> IsDownloaded (manager f) fs info
        \<and> Engine info \<noteq> EngineWhisper \<and> Engine info \<noteq> EngineVosk \<longrightarrow>
        Create eng fs f mid = Inl (UnknownEngine (Engine info)))"
  by (auto simp: Swap_def Create_def Current_def CurrentModelID_def wrapped_def Let_def
              EngineWhisper_def EngineVosk_def
           split: sum.splits option.splits)

theorem failed_Swap_keeps_current_witness:
  "Swap engines_ok fs_fresh factory_loaded ''whisper-huge''
     = (Some (ModelNotFound ''whisper-huge''), factory_loaded, [])
   \<and> Swap engines_ok fs_fresh factory_loaded ''whisper-base''
     = (Some (ModelNotDownloaded ''Base''), factory_loaded, [])
   \<and> Swap engines_broken fs_with_base factory_loaded ''whisper-base''
     = (Some (CreateRecognizerFailed (External ''failed to load model'')), factory_loaded, [])
   \<and> Swap engines_broken fs_with_all factory_loaded ''vosk-ru-small''
     = (Some (CreateRecognizerFailed (VoskModelLoadFailed (External ''failed to load model''))),
        factory_loaded, [])
   \<and> Swap engines_ok fs_with_all factory_loaded ''llm-qwen2.5-0.5b''
     = (Some (UnknownEngine EngineLLM), factory_loaded, [])
   \<and> Current factory_loaded = Some (WhisperRecognizer 11)
   \<and> CurrentModelID factory_loaded = ''whisper-tiny-q5''"
proof -
  have m: "manager factory_loaded = mgr" by (simp add: factory_loaded_def)
  have 1: "Swap engines_ok fs_fresh factory_loaded ''whisper-huge''
     = (Some (ModelNotFound ''whisper-huge''), factory_loaded, [])"
    using failed_Swap_keeps_current
      [of engines_ok fs_fresh factory_loaded "''whisper-huge''" "ModelNotFound ''whisper-huge''"]
    by (simp add: GetModel_unknown)
  have 2: "Swap engines_ok fs_fresh factory_loaded ''whisper-base''
     = (Some (ModelNotDownloaded ''Base''), factory_loaded, [])"
    using failed_Swap_keeps_current
      [of engines_ok fs_fresh factory_loaded "''whisper-base''" "ModelNotDownloaded ''Base''"
          whisper_base]
    by (simp add: GetModel_base IsDownloaded_base_fresh whisper_base_fields m)
  have 3: "Swap engines_broken fs_with_base factory_loaded ''whisper-base''
     = (Some (CreateRecognizerFailed (External ''failed to load model'')), factory_loaded, [])"
    using failed_Swap_keeps_current
      [of engines_broken fs_with_base factory_loaded "''whisper-base''"
          "CreateRecognizerFailed (External ''failed to load model'')" whisper_base
          "External ''failed to load model''"]
    by (simp add: GetModel_base IsDownloaded_base whisper_base_fields m NewWhisperFromFile_def
          engines_broken_def)
  have 4: "Swap engines_broken fs_with_all factory_loaded ''vosk-ru-small''
     = (Some (CreateRecognizerFailed (VoskModelLoadFailed (External ''failed to load model''))),
        factory_loaded, [])"
    using failed_Swap_keeps_current
      [of engines_broken fs_with_all factory_loaded "''vosk-ru-small''"
          "CreateRecognizerFailed (VoskModelLoadFailed (External ''failed to load model''))"
          vosk_ru_small "VoskModelLoadFailed (External ''failed to load model'')"]
    by (simp add: GetModel_vosk IsDownloaded_all vosk_fields m NewVosk_broken)
  have 5: "Swap engines_ok fs_with_all factory_loaded ''llm-qwen2.5-0.5b''
     = (Some (UnknownEngine EngineLLM), factory_loaded, [])"
    using failed_Swap_keeps_current
      [of engines_ok fs_with_all factory_loaded "''llm-qwen2.5-0.5b''" "UnknownEngine EngineLLM"
          llm_qwen_05b]
    by (simp add: GetModel_llm IsDownloaded_all llm_fields engines_differ m)
  show ?thesis
    by (simp add: 1 2 3 4 5) (simp add: Current_def CurrentModelID_def factory_loaded_def)
qed

end
